theory Spec2Isabelle
  imports Complex_Main
begin

section \<open>Data model of \<open>BasketballDataExtractor\<close>\<close>

text \<open>
  The extractor of \<^verbatim>\<open>basketball_data_extractor.py\<close> turns per-frame dictionaries into
  six lists of flat records. Python values are embedded as follows.

  \<^item> Identifiers and labels (player ids, team labels, pass types, dictionary keys) are
    integers or strings: \<open>scalar\<close>. On these two kinds of value Python's \<^verbatim>\<open>==\<close> and
    hashing agree with structural equality.
  \<^item> Frame numbers are Python integers: \<open>int\<close>.
  \<^item> Coordinates, speeds and timestamps are numbers: \<open>rat\<close>. Arithmetic is exact; the
    rounding of IEEE doubles is not part of the model.
  \<^item> A dictionary is an association list in insertion order; \<^verbatim>\<open>d.items()\<close> is the list.
  \<^item> \<^verbatim>\<open>None\<close> in a field of an emitted record is \<open>None\<close> of an option type.
\<close>

datatype scalar = IntV int | StrV string

type_synonym ('k, 'v) dict = "('k \<times> 'v) list"

text \<open>\<^verbatim>\<open>d.get(k, default)\<close>\<close>

definition dict_get :: "('k, 'v) dict \<Rightarrow> 'k \<Rightarrow> 'v \<Rightarrow> 'v" where
  "dict_get d k dflt = (case map_of d k of None \<Rightarrow> dflt | Some v \<Rightarrow> v)"

text \<open>\<^verbatim>\<open>k in d\<close>\<close>

definition dict_has :: "('k, 'v) dict \<Rightarrow> 'k \<Rightarrow> bool" where
  "dict_has d k = (k \<in> set (map fst d))"

text \<open>\<^verbatim>\<open>d[k] = v\<close>: an existing key keeps its position, a new key goes to the end.\<close>

fun dict_set :: "('k, 'v) dict \<Rightarrow> 'k \<Rightarrow> 'v \<Rightarrow> ('k, 'v) dict" where
  "dict_set [] k v = [(k, v)]"
| "dict_set ((k', v') # d) k v = (if k' = k then (k, v) # d else (k', v') # dict_set d k v)"

text \<open>
  A track is a dictionary of which only the entry \<^verbatim>\<open>'bbox'\<close>, a list of numbers, is read.
\<close>

type_synonym track_info = "(string, rat list) dict"
type_synonym tracks = "(scalar, track_info) dict"
type_synonym assignment = "(scalar, scalar) dict"

text \<open>
  The possession value of a frame. \<^verbatim>\<open>extract_player_data\<close> tests it with
  \<^verbatim>\<open>isinstance\<close> against \<^verbatim>\<open>dict\<close> and \<^verbatim>\<open>list\<close>; the remaining shapes stand for
  everything else: a tuple (iterable, with a length), an integer and \<^verbatim>\<open>None\<close> (neither).
\<close>

datatype possession =
    PossDict "(scalar, scalar) dict"
  | PossList "scalar list"
  | PossTuple "scalar list"
  | PossInt int
  | PossNone

datatype pyerror = TypeError | ZeroDivisionError

record player_entry =
  p_frame :: int
  p_player_id :: scalar
  p_team :: scalar
  p_x_min :: "rat option"
  p_y_min :: "rat option"
  p_x_max :: "rat option"
  p_y_max :: "rat option"
  p_has_ball :: bool
  p_timestamp :: rat

record ball_entry =
  b_frame :: int
  b_x_min :: "rat option"
  b_y_min :: "rat option"
  b_x_max :: "rat option"
  b_y_max :: "rat option"
  b_center_x :: "rat option"
  b_center_y :: "rat option"
  b_timestamp :: rat

text \<open>
  A pass or interception dictionary has loosely defined keys; each field below is the
  value under the key of that name, \<open>None\<close> when the key is absent.
\<close>

record pass_info =
  pi_pass_id :: "scalar option"
  pi_start_frame :: "int option"
  pi_end_frame :: "int option"
  pi_passer_id :: "scalar option"
  pi_receiver_id :: "scalar option"
  pi_passer_team :: "scalar option"
  pi_receiver_team :: "scalar option"
  pi_pass_type :: "scalar option"

record pass_entry =
  ps_pass_id :: scalar
  ps_start_frame :: "int option"
  ps_end_frame :: "int option"
  ps_passer_id :: "scalar option"
  ps_receiver_id :: "scalar option"
  ps_passer_team :: "scalar option"
  ps_receiver_team :: "scalar option"
  ps_pass_type :: scalar
  ps_start_timestamp :: rat
  ps_end_timestamp :: rat
  ps_duration :: rat

record interception_info =
  ii_interception_id :: "scalar option"
  ii_frame :: "int option"
  ii_interceptor_id :: "scalar option"
  ii_interceptor_team :: "scalar option"
  ii_original_team :: "scalar option"

record interception_entry =
  ic_interception_id :: scalar
  ic_frame :: "int option"
  ic_interceptor_id :: "scalar option"
  ic_interceptor_team :: "scalar option"
  ic_original_team :: "scalar option"
  ic_timestamp :: rat

record speed_entry =
  sp_frame :: int
  sp_player_id :: scalar
  sp_speed_mps :: rat
  sp_speed_kmh :: rat
  sp_timestamp :: rat

record possession_entry =
  tp_frame :: int
  tp_possession_data :: "(scalar, int) dict"
  tp_total_players_with_ball :: nat
  tp_timestamp :: rat

text \<open>The object: the output directory and the six collections.\<close>

record extractor =
  output_dir :: string
  player_data :: "player_entry list"
  ball_data :: "ball_entry list"
  pass_data :: "pass_entry list"
  interception_data :: "interception_entry list"
  speed_data :: "speed_entry list"
  team_possession_data :: "possession_entry list"

text \<open>\<^verbatim>\<open>__init__\<close> (the creation of the directory is an effect outside the model).\<close>

definition init :: "string \<Rightarrow> extractor" where
  "init dir = \<lparr>output_dir = dir, player_data = [], ball_data = [], pass_data = [],
     interception_data = [], speed_data = [], team_possession_data = []\<rparr>"

section \<open>Extraction operations\<close>

text \<open>
  \<^verbatim>\<open>frame_numbers[frame_idx] if frame_idx < len(frame_numbers) else frame_idx\<close>; the
  index comes from \<^verbatim>\<open>enumerate\<close> and is never negative.
\<close>

definition frame_num_at :: "int list \<Rightarrow> nat \<Rightarrow> int" where
  "frame_num_at frame_numbers frame_idx =
     (if frame_idx < length frame_numbers then frame_numbers ! frame_idx else int frame_idx)"

text \<open>\<^verbatim>\<open>bbox[i] if len(bbox) >= 4 else None\<close>, used with \<open>i < 4\<close> only.\<close>

definition bbox_at :: "rat list \<Rightarrow> nat \<Rightarrow> rat option" where
  "bbox_at bbox i = (if length bbox \<ge> 4 then Some (bbox ! i) else None)"

text \<open>The \<^verbatim>\<open>isinstance\<close> chain that computes \<^verbatim>\<open>has_ball\<close>.\<close>

fun has_ball_of :: "possession \<Rightarrow> scalar \<Rightarrow> bool" where
  "has_ball_of (PossDict d) player_id = dict_has d player_id"
| "has_ball_of (PossList l) player_id = (player_id \<in> set l)"
| "has_ball_of _ player_id = False"

definition player_entry_of ::
  "int \<Rightarrow> assignment \<Rightarrow> possession \<Rightarrow> scalar \<Rightarrow> track_info \<Rightarrow> player_entry" where
  "player_entry_of frame_num assignment possession player_id track_info =
     (let bbox = dict_get track_info ''bbox'' [];
          team = dict_get assignment player_id (StrV ''Unknown'');
          has_ball = has_ball_of possession player_id
      in \<lparr>p_frame = frame_num, p_player_id = player_id, p_team = team,
          p_x_min = bbox_at bbox 0, p_y_min = bbox_at bbox 1,
          p_x_max = bbox_at bbox 2, p_y_max = bbox_at bbox 3,
          p_has_ball = has_ball, p_timestamp = of_int frame_num / 30\<rparr>)"

text \<open>The inner loop over \<^verbatim>\<open>tracks.items()\<close>; the accumulator is \<^verbatim>\<open>self.player_data\<close>.\<close>

fun player_items ::
  "int \<Rightarrow> assignment \<Rightarrow> possession \<Rightarrow> tracks \<Rightarrow> player_entry list \<Rightarrow> player_entry list" where
  "player_items frame_num assignment possession [] acc = acc"
| "player_items frame_num assignment possession ((player_id, track_info) # rest) acc =
     player_items frame_num assignment possession rest
       (acc @ [player_entry_of frame_num assignment possession player_id track_info])"

text \<open>The outer loop over \<^verbatim>\<open>enumerate(zip(...))\<close>, from index \<open>frame_idx\<close> on.\<close>

fun player_frames ::
  "nat \<Rightarrow> (tracks \<times> assignment \<times> possession) list \<Rightarrow> int list \<Rightarrow>
   player_entry list \<Rightarrow> player_entry list" where
  "player_frames frame_idx [] frame_numbers acc = acc"
| "player_frames frame_idx ((tracks, assignment, possession) # rest) frame_numbers acc =
     player_frames (Suc frame_idx) rest frame_numbers
       (player_items (frame_num_at frame_numbers frame_idx) assignment possession tracks acc)"

definition extract_player_data ::
  "tracks list \<Rightarrow> assignment list \<Rightarrow> possession list \<Rightarrow> int list \<Rightarrow> extractor \<Rightarrow> extractor" where
  "extract_player_data player_tracks player_assignment ball_aquisition frame_numbers s =
     s\<lparr>player_data :=
         player_frames 0 (zip player_tracks (zip player_assignment ball_aquisition))
           frame_numbers (player_data s)\<rparr>"

text \<open>
  \<^verbatim>\<open>extract_ball_data\<close>. An empty dictionary is falsy, so the test
  \<^verbatim>\<open>ball_info and 1 in ball_info\<close> is written with both conjuncts.
\<close>

definition ball_detected :: "tracks \<Rightarrow> bool" where
  "ball_detected ball_info = (ball_info \<noteq> [] \<and> dict_has ball_info (IntV 1))"

definition ball_entry_of :: "int \<Rightarrow> track_info \<Rightarrow> ball_entry" where
  "ball_entry_of frame_num track_info =
     (let bbox = dict_get track_info ''bbox'' []
      in \<lparr>b_frame = frame_num,
          b_x_min = bbox_at bbox 0, b_y_min = bbox_at bbox 1,
          b_x_max = bbox_at bbox 2, b_y_max = bbox_at bbox 3,
          b_center_x = (if length bbox \<ge> 4 then Some ((bbox ! 0 + bbox ! 2) / 2) else None),
          b_center_y = (if length bbox \<ge> 4 then Some ((bbox ! 1 + bbox ! 3) / 2) else None),
          b_timestamp = of_int frame_num / 30\<rparr>)"

fun ball_frames :: "nat \<Rightarrow> tracks list \<Rightarrow> int list \<Rightarrow> ball_entry list \<Rightarrow> ball_entry list" where
  "ball_frames frame_idx [] frame_numbers acc = acc"
| "ball_frames frame_idx (ball_info # rest) frame_numbers acc =
     ball_frames (Suc frame_idx) rest frame_numbers
       (if ball_detected ball_info
        then acc @ [ball_entry_of (frame_num_at frame_numbers frame_idx)
                      (dict_get ball_info (IntV 1) [])]
        else acc)"

definition extract_ball_data :: "tracks list \<Rightarrow> int list \<Rightarrow> extractor \<Rightarrow> extractor" where
  "extract_ball_data ball_tracks frame_numbers s =
     s\<lparr>ball_data := ball_frames 0 ball_tracks frame_numbers (ball_data s)\<rparr>"

text \<open>
  \<^verbatim>\<open>extract_pass_data\<close>. The argument \<^verbatim>\<open>frame_numbers\<close> is accepted and never read.
  \<^verbatim>\<open>pass_info.get('start_frame')\<close> fills the frame fields, while the timestamps and
  the duration use \<^verbatim>\<open>pass_info.get('start_frame', 0)\<close>. The argument \<open>n\<close> of
  \<open>pass_entry_of\<close> is \<^verbatim>\<open>len(self.pass_data)\<close> at the time the entry is built.
\<close>

definition get_or :: "'a option \<Rightarrow> 'a \<Rightarrow> 'a" where
  "get_or field dflt = (case field of None \<Rightarrow> dflt | Some v \<Rightarrow> v)"

definition pass_entry_of :: "pass_info \<Rightarrow> nat \<Rightarrow> pass_entry" where
  "pass_entry_of pass_info n =
     \<lparr>ps_pass_id = get_or (pi_pass_id pass_info) (IntV (int n)),
      ps_start_frame = pi_start_frame pass_info,
      ps_end_frame = pi_end_frame pass_info,
      ps_passer_id = pi_passer_id pass_info,
      ps_receiver_id = pi_receiver_id pass_info,
      ps_passer_team = pi_passer_team pass_info,
      ps_receiver_team = pi_receiver_team pass_info,
      ps_pass_type = get_or (pi_pass_type pass_info) (StrV ''Unknown''),
      ps_start_timestamp = of_int (get_or (pi_start_frame pass_info) 0) / 30,
      ps_end_timestamp = of_int (get_or (pi_end_frame pass_info) 0) / 30,
      ps_duration =
        of_int (get_or (pi_end_frame pass_info) 0 - get_or (pi_start_frame pass_info) 0) / 30\<rparr>"

fun pass_loop :: "pass_info list \<Rightarrow> pass_entry list \<Rightarrow> pass_entry list" where
  "pass_loop [] acc = acc"
| "pass_loop (pass_info # rest) acc = pass_loop rest (acc @ [pass_entry_of pass_info (length acc)])"

definition extract_pass_data :: "pass_info list \<Rightarrow> int list \<Rightarrow> extractor \<Rightarrow> extractor" where
  "extract_pass_data passes frame_numbers s = s\<lparr>pass_data := pass_loop passes (pass_data s)\<rparr>"

text \<open>\<^verbatim>\<open>extract_interception_data\<close>, of the same shape.\<close>

definition interception_entry_of ::
  "interception_info \<Rightarrow> nat \<Rightarrow> interception_entry" where
  "interception_entry_of interception_info n =
     \<lparr>ic_interception_id =
        get_or (ii_interception_id interception_info) (IntV (int n)),
      ic_frame = ii_frame interception_info,
      ic_interceptor_id = ii_interceptor_id interception_info,
      ic_interceptor_team = ii_interceptor_team interception_info,
      ic_original_team = ii_original_team interception_info,
      ic_timestamp = of_int (get_or (ii_frame interception_info) 0) / 30\<rparr>"

fun interception_loop ::
  "interception_info list \<Rightarrow> interception_entry list \<Rightarrow> interception_entry list" where
  "interception_loop [] acc = acc"
| "interception_loop (interception_info # rest) acc =
     interception_loop rest (acc @ [interception_entry_of interception_info (length acc)])"

definition extract_interception_data ::
  "interception_info list \<Rightarrow> int list \<Rightarrow> extractor \<Rightarrow> extractor" where
  "extract_interception_data interceptions frame_numbers s =
     s\<lparr>interception_data := interception_loop interceptions (interception_data s)\<rparr>"

text \<open>\<^verbatim>\<open>extract_speed_data\<close>; \<^verbatim>\<open>speed * 3.6\<close> is \<open>speed * (18 / 5)\<close>.\<close>

definition speed_entry_of :: "int \<Rightarrow> scalar \<Rightarrow> rat \<Rightarrow> speed_entry" where
  "speed_entry_of frame_num player_id speed =
     \<lparr>sp_frame = frame_num, sp_player_id = player_id, sp_speed_mps = speed,
      sp_speed_kmh = speed * (18 / 5), sp_timestamp = of_int frame_num / 30\<rparr>"

fun speed_items :: "int \<Rightarrow> (scalar, rat) dict \<Rightarrow> speed_entry list \<Rightarrow> speed_entry list" where
  "speed_items frame_num [] acc = acc"
| "speed_items frame_num ((player_id, speed) # rest) acc =
     speed_items frame_num rest (acc @ [speed_entry_of frame_num player_id speed])"

fun speed_frames ::
  "nat \<Rightarrow> (scalar, rat) dict list \<Rightarrow> int list \<Rightarrow> speed_entry list \<Rightarrow> speed_entry list" where
  "speed_frames frame_idx [] frame_numbers acc = acc"
| "speed_frames frame_idx (speed_info # rest) frame_numbers acc =
     speed_frames (Suc frame_idx) rest frame_numbers
       (speed_items (frame_num_at frame_numbers frame_idx) speed_info acc)"

definition extract_speed_data ::
  "(scalar, rat) dict list \<Rightarrow> int list \<Rightarrow> extractor \<Rightarrow> extractor" where
  "extract_speed_data player_speed_per_frame frame_numbers s =
     s\<lparr>speed_data := speed_frames 0 player_speed_per_frame frame_numbers (speed_data s)\<rparr>"

text \<open>
  \<^verbatim>\<open>extract_team_possession_data\<close> iterates over the possession value and takes its
  length. A dictionary yields its keys, a list or tuple its elements; an integer and
  \<^verbatim>\<open>None\<close> are not iterable and the \<^verbatim>\<open>for\<close> statement raises \<^verbatim>\<open>TypeError\<close>.
\<close>

fun iter_possession :: "possession \<Rightarrow> pyerror + scalar list" where
  "iter_possession (PossDict d) = Inr (map fst d)"
| "iter_possession (PossList l) = Inr l"
| "iter_possession (PossTuple l) = Inr l"
| "iter_possession (PossInt n) = Inl TypeError"
| "iter_possession PossNone = Inl TypeError"

fun len_possession :: "possession \<Rightarrow> pyerror + nat" where
  "len_possession (PossDict d) = Inr (length d)"
| "len_possession (PossList l) = Inr (length l)"
| "len_possession (PossTuple l) = Inr (length l)"
| "len_possession (PossInt n) = Inl TypeError"
| "len_possession PossNone = Inl TypeError"

text \<open>The loop \<^verbatim>\<open>team_possession[player_id] = 1\<close>.\<close>

fun mark_players :: "scalar list \<Rightarrow> (scalar, int) dict \<Rightarrow> (scalar, int) dict" where
  "mark_players [] team_possession = team_possession"
| "mark_players (player_id # rest) team_possession =
     mark_players rest (dict_set team_possession player_id 1)"

definition possession_entry_of :: "int \<Rightarrow> possession \<Rightarrow> pyerror + possession_entry" where
  "possession_entry_of frame_num possession_info =
     (case iter_possession possession_info of
        Inl e \<Rightarrow> Inl e
      | Inr players \<Rightarrow>
          (case len_possession possession_info of
             Inl e \<Rightarrow> Inl e
           | Inr n \<Rightarrow>
               Inr \<lparr>tp_frame = frame_num,
                    tp_possession_data = mark_players players [],
                    tp_total_players_with_ball = n,
                    tp_timestamp = of_int frame_num / 30\<rparr>))"

text \<open>
  An exception leaves the method in the middle of the loop: the entries of the earlier
  frames stay in \<^verbatim>\<open>self.team_possession_data\<close>. The loop therefore returns the
  collection together with the exception, if any.
\<close>

fun possession_frames ::
  "nat \<Rightarrow> possession list \<Rightarrow> int list \<Rightarrow> possession_entry list \<Rightarrow>
   possession_entry list \<times> pyerror option" where
  "possession_frames frame_idx [] frame_numbers acc = (acc, None)"
| "possession_frames frame_idx (possession_info # rest) frame_numbers acc =
     (case possession_entry_of (frame_num_at frame_numbers frame_idx) possession_info of
        Inl e \<Rightarrow> (acc, Some e)
      | Inr possession_entry \<Rightarrow>
          possession_frames (Suc frame_idx) rest frame_numbers (acc @ [possession_entry]))"

definition extract_team_possession_data ::
  "possession list \<Rightarrow> int list \<Rightarrow> extractor \<Rightarrow> extractor \<times> pyerror option" where
  "extract_team_possession_data ball_aquisition frame_numbers s =
     (case possession_frames 0 ball_aquisition frame_numbers (team_possession_data s) of
        (acc, err) \<Rightarrow> (s\<lparr>team_possession_data := acc\<rparr>, err))"

text \<open>
  The states an extractor object can be in: the fresh object, and whatever a call of an
  extraction method leaves behind; for \<^verbatim>\<open>extract_team_possession_data\<close> this includes
  the state left by a call that raised.
\<close>

inductive reachable :: "extractor \<Rightarrow> bool" where
  reach_init: "reachable (init dir)"
| reach_player: "reachable s \<Longrightarrow> reachable (extract_player_data pt pa ba fns s)"
| reach_ball: "reachable s \<Longrightarrow> reachable (extract_ball_data bt fns s)"
| reach_pass: "reachable s \<Longrightarrow> reachable (extract_pass_data ps fns s)"
| reach_interception: "reachable s \<Longrightarrow> reachable (extract_interception_data xs fns s)"
| reach_speed: "reachable s \<Longrightarrow> reachable (extract_speed_data sps fns s)"
| reach_team: "reachable s \<Longrightarrow> reachable (fst (extract_team_possession_data ba fns s))"

section \<open>Summary report\<close>

text \<open>
  The result of \<^verbatim>\<open>generate_summary_report\<close>. \<^verbatim>\<open>list(set(...))\<close> has no specified
  order, so \<^verbatim>\<open>teams_detected\<close> is a set; the key \<^verbatim>\<open>'average_player_speeds'\<close> is
  present or not, hence an option.
\<close>

record summary =
  total_frames_analyzed :: nat
  total_players_detected :: nat
  total_ball_detections :: nat
  total_passes :: nat
  total_interceptions :: nat
  total_speed_measurements :: nat
  analysis_duration_seconds :: rat
  teams_detected :: "scalar set"
  average_player_speeds :: "(scalar, rat) dict option"

text \<open>
  The loop that groups the speeds by player. The list under \<^verbatim>\<open>player_id\<close> exists when
  \<^verbatim>\<open>append\<close> is called, because the statement before creates it.
\<close>

fun group_speeds :: "speed_entry list \<Rightarrow> (scalar, rat list) dict \<Rightarrow> (scalar, rat list) dict" where
  "group_speeds [] avg_speeds = avg_speeds"
| "group_speeds (entry # rest) avg_speeds =
     (let player_id = sp_player_id entry;
          avg_speeds1 = (if \<not> dict_has avg_speeds player_id
                         then dict_set avg_speeds player_id [] else avg_speeds)
      in group_speeds rest
           (dict_set avg_speeds1 player_id
              (dict_get avg_speeds1 player_id [] @ [sp_speed_mps entry])))"

text \<open>\<^verbatim>\<open>sum(speeds) / len(speeds)\<close>, which raises on an empty list.\<close>

definition mean_speed :: "rat list \<Rightarrow> pyerror + rat" where
  "mean_speed speeds =
     (if length speeds = 0 then Inl ZeroDivisionError
      else Inr (sum_list speeds / of_nat (length speeds)))"

text \<open>The dictionary comprehension over \<^verbatim>\<open>avg_speeds.items()\<close>.\<close>

fun average_items :: "(scalar, rat list) dict \<Rightarrow> pyerror + (scalar, rat) dict" where
  "average_items [] = Inr []"
| "average_items ((player_id, speeds) # rest) =
     (case mean_speed speeds of
        Inl e \<Rightarrow> Inl e
      | Inr m \<Rightarrow>
          (case average_items rest of
             Inl e \<Rightarrow> Inl e
           | Inr d \<Rightarrow> Inr ((player_id, m) # d)))"

definition generate_summary_report :: "extractor \<Rightarrow> pyerror + summary" where
  "generate_summary_report s =
     (let summary =
        \<lparr>total_frames_analyzed =
           (if player_data s \<noteq> [] then card (set (map p_frame (player_data s))) else 0),
         total_players_detected =
           (if player_data s \<noteq> [] then card (set (map p_player_id (player_data s))) else 0),
         total_ball_detections = length (ball_data s),
         total_passes = length (pass_data s),
         total_interceptions = length (interception_data s),
         total_speed_measurements = length (speed_data s),
         analysis_duration_seconds =
           (case map p_timestamp (player_data s) of [] \<Rightarrow> 0 | t # ts \<Rightarrow> fold max ts t),
         teams_detected =
           (if player_data s \<noteq> []
            then set (filter (\<lambda>team. team \<noteq> StrV ''Unknown'') (map p_team (player_data s)))
            else {}),
         average_player_speeds = None\<rparr>
      in if speed_data s \<noteq> []
         then (case average_items (group_speeds (speed_data s) []) of
                 Inl e \<Rightarrow> Inl e
               | Inr d \<Rightarrow> Inr (summary\<lparr>average_player_speeds := Some d\<rparr>))
         else Inr summary)"

section \<open>The structured file\<close>

text \<open>
  \<^verbatim>\<open>save_to_json\<close> hands a dictionary of dictionaries and lists to \<^verbatim>\<open>json.dump\<close>. The
  Python values that occur are \<open>pyval\<close>; a JSON document is \<open>json\<close>. The text of the file
  (indentation, number syntax, string escapes) is not modelled: the file is the JSON
  document it denotes.
\<close>

datatype pyval =
    PyNone
  | PyBool bool
  | PyNum rat
  | PyStr string
  | PyList "pyval list"
  | PyDict "(scalar \<times> pyval) list"

datatype json =
    JNull
  | JBool bool
  | JNum rat
  | JStr string
  | JArr "json list"
  | JObj "(string \<times> json) list"

text \<open>\<^verbatim>\<open>str(n)\<close> for an integer: decimal digits, with a minus sign.\<close>

fun str_of_nat :: "nat \<Rightarrow> string" where
  "str_of_nat n =
     (if n < 10 then [char_of (48 + n)]
      else str_of_nat (n div 10) @ [char_of (48 + n mod 10)])"

declare str_of_nat.simps [simp del]

definition str_of_int :: "int \<Rightarrow> string" where
  "str_of_int i = (if i < 0 then CHR ''-'' # str_of_nat (nat (- i)) else str_of_nat (nat i))"

text \<open>
  The encoder turns every dictionary key into a string: a string stays, an integer
  becomes its decimal representation.
\<close>

fun key_str :: "scalar \<Rightarrow> string" where
  "key_str (StrV s) = s"
| "key_str (IntV n) = str_of_int n"

fun json_dump :: "pyval \<Rightarrow> json" where
  "json_dump PyNone = JNull"
| "json_dump (PyBool b) = JBool b"
| "json_dump (PyNum x) = JNum x"
| "json_dump (PyStr s) = JStr s"
| "json_dump (PyList xs) = JArr (map json_dump xs)"
| "json_dump (PyDict kvs) = JObj (map (\<lambda>(k, v). (key_str k, json_dump v)) kvs)"

text \<open>
  \<^verbatim>\<open>json.load\<close>: an object becomes a dictionary with string keys, built pair by pair, so
  that a repeated key keeps its first position and its last value.
\<close>

fun json_load :: "json \<Rightarrow> pyval" where
  "json_load JNull = PyNone"
| "json_load (JBool b) = PyBool b"
| "json_load (JNum x) = PyNum x"
| "json_load (JStr s) = PyStr s"
| "json_load (JArr xs) = PyList (map json_load xs)"
| "json_load (JObj kvs) =
     PyDict (fold (\<lambda>(k, v) d. dict_set d (StrV k) v) (map (\<lambda>(k, v). (k, json_load v)) kvs) [])"

text \<open>The entries as the dictionaries the extraction methods build.\<close>

definition scalar_val :: "scalar \<Rightarrow> pyval" where
  "scalar_val x = (case x of IntV n \<Rightarrow> PyNum (of_int n) | StrV s \<Rightarrow> PyStr s)"

definition opt_val :: "('a \<Rightarrow> pyval) \<Rightarrow> 'a option \<Rightarrow> pyval" where
  "opt_val f x = (case x of None \<Rightarrow> PyNone | Some v \<Rightarrow> f v)"

definition int_val :: "int \<Rightarrow> pyval" where
  "int_val n = PyNum (of_int n)"

definition player_val :: "player_entry \<Rightarrow> pyval" where
  "player_val r = PyDict
     [(StrV ''frame'', int_val (p_frame r)),
      (StrV ''player_id'', scalar_val (p_player_id r)),
      (StrV ''team'', scalar_val (p_team r)),
      (StrV ''x_min'', opt_val PyNum (p_x_min r)),
      (StrV ''y_min'', opt_val PyNum (p_y_min r)),
      (StrV ''x_max'', opt_val PyNum (p_x_max r)),
      (StrV ''y_max'', opt_val PyNum (p_y_max r)),
      (StrV ''has_ball'', PyBool (p_has_ball r)),
      (StrV ''timestamp'', PyNum (p_timestamp r))]"

definition ball_val :: "ball_entry \<Rightarrow> pyval" where
  "ball_val r = PyDict
     [(StrV ''frame'', int_val (b_frame r)),
      (StrV ''x_min'', opt_val PyNum (b_x_min r)),
      (StrV ''y_min'', opt_val PyNum (b_y_min r)),
      (StrV ''x_max'', opt_val PyNum (b_x_max r)),
      (StrV ''y_max'', opt_val PyNum (b_y_max r)),
      (StrV ''center_x'', opt_val PyNum (b_center_x r)),
      (StrV ''center_y'', opt_val PyNum (b_center_y r)),
      (StrV ''timestamp'', PyNum (b_timestamp r))]"

definition pass_val :: "pass_entry \<Rightarrow> pyval" where
  "pass_val r = PyDict
     [(StrV ''pass_id'', scalar_val (ps_pass_id r)),
      (StrV ''start_frame'', opt_val int_val (ps_start_frame r)),
      (StrV ''end_frame'', opt_val int_val (ps_end_frame r)),
      (StrV ''passer_id'', opt_val scalar_val (ps_passer_id r)),
      (StrV ''receiver_id'', opt_val scalar_val (ps_receiver_id r)),
      (StrV ''passer_team'', opt_val scalar_val (ps_passer_team r)),
      (StrV ''receiver_team'', opt_val scalar_val (ps_receiver_team r)),
      (StrV ''pass_type'', scalar_val (ps_pass_type r)),
      (StrV ''start_timestamp'', PyNum (ps_start_timestamp r)),
      (StrV ''end_timestamp'', PyNum (ps_end_timestamp r)),
      (StrV ''duration'', PyNum (ps_duration r))]"

definition interception_val :: "interception_entry \<Rightarrow> pyval" where
  "interception_val r = PyDict
     [(StrV ''interception_id'', scalar_val (ic_interception_id r)),
      (StrV ''frame'', opt_val int_val (ic_frame r)),
      (StrV ''interceptor_id'', opt_val scalar_val (ic_interceptor_id r)),
      (StrV ''interceptor_team'', opt_val scalar_val (ic_interceptor_team r)),
      (StrV ''original_team'', opt_val scalar_val (ic_original_team r)),
      (StrV ''timestamp'', PyNum (ic_timestamp r))]"

definition speed_val :: "speed_entry \<Rightarrow> pyval" where
  "speed_val r = PyDict
     [(StrV ''frame'', int_val (sp_frame r)),
      (StrV ''player_id'', scalar_val (sp_player_id r)),
      (StrV ''speed_mps'', PyNum (sp_speed_mps r)),
      (StrV ''speed_kmh'', PyNum (sp_speed_kmh r)),
      (StrV ''timestamp'', PyNum (sp_timestamp r))]"

definition possession_val :: "possession_entry \<Rightarrow> pyval" where
  "possession_val r = PyDict
     [(StrV ''frame'', int_val (tp_frame r)),
      (StrV ''possession_data'', PyDict (map (\<lambda>(k, v). (k, int_val v)) (tp_possession_data r))),
      (StrV ''total_players_with_ball'', int_val (int (tp_total_players_with_ball r))),
      (StrV ''timestamp'', PyNum (tp_timestamp r))]"

text \<open>
  \<^verbatim>\<open>os.path.join\<close> of two components: an absolute second component replaces the
  first, and a separator is put between them unless the first is empty or ends in one.
\<close>

definition path_join :: "string \<Rightarrow> string \<Rightarrow> string" where
  "path_join a b =
     (if b \<noteq> [] \<and> hd b = CHR ''/'' then b
      else if a = [] \<or> last a = CHR ''/'' then a @ b
      else a @ ''/'' @ b)"

text \<open>
  \<^verbatim>\<open>save_to_json\<close>. The two readings of the clock are arguments: \<open>stamp\<close> is
  \<^verbatim>\<open>datetime.now().strftime("%Y%m%d_%H%M%S")\<close> and \<open>iso_time\<close> is
  \<^verbatim>\<open>datetime.now().isoformat()\<close>. The result is the path and the document written there.
\<close>

definition json_data :: "string \<Rightarrow> extractor \<Rightarrow> pyval" where
  "json_data iso_time s = PyDict
     [(StrV ''metadata'', PyDict
        [(StrV ''extraction_time'', PyStr iso_time),
         (StrV ''total_frames'',
            int_val (if player_data s \<noteq> [] then int (length (player_data s)) div 10 else 0)),
         (StrV ''total_players'', int_val (int (card (set (map p_player_id (player_data s)))))),
         (StrV ''total_passes'', int_val (int (length (pass_data s)))),
         (StrV ''total_interceptions'', int_val (int (length (interception_data s))))]),
      (StrV ''player_data'', PyList (map player_val (player_data s))),
      (StrV ''ball_data'', PyList (map ball_val (ball_data s))),
      (StrV ''pass_data'', PyList (map pass_val (pass_data s))),
      (StrV ''interception_data'', PyList (map interception_val (interception_data s))),
      (StrV ''speed_data'', PyList (map speed_val (speed_data s))),
      (StrV ''team_possession_data'', PyList (map possession_val (team_possession_data s)))]"

definition save_to_json :: "string option \<Rightarrow> string \<Rightarrow> string \<Rightarrow> extractor \<Rightarrow> string \<times> json" where
  "save_to_json filename stamp iso_time s =
     (let filename1 = (case filename of
                         None \<Rightarrow> ''basketball_analysis_'' @ stamp @ ''.json''
                       | Some f \<Rightarrow> f);
          filepath = path_join (output_dir s) filename1
      in (filepath, json_dump (json_data iso_time s)))"

text \<open>
  Reading a collection back: \<^verbatim>\<open>json.load(f)[name]\<close>, \<open>None\<close> when the document is no
  object or has no such key.
\<close>

definition reload_collection :: "json \<Rightarrow> string \<Rightarrow> pyval option" where
  "reload_collection doc name =
     (case json_load doc of PyDict d \<Rightarrow> map_of d (StrV name) | _ \<Rightarrow> None)"

definition collection_names :: "string list" where
  "collection_names = [''player_data'', ''ball_data'', ''pass_data'', ''interception_data'',
     ''speed_data'', ''team_possession_data'']"

section \<open>Properties of the extraction loops\<close>

lemma player_items_append:
  "player_items fn a p items acc = acc @ map (\<lambda>(pid, ti). player_entry_of fn a p pid ti) items"
  by (induction items arbitrary: acc) auto

lemma player_frames_append:
  "player_frames i fs fns acc =
     acc @ concat (map (\<lambda>(j, t, a, p). map (\<lambda>(pid, ti). player_entry_of (frame_num_at fns j) a p pid ti) t)
                     (enumerate i fs))"
  by (induction fs arbitrary: i acc) (auto simp: player_items_append)

lemma ball_frames_append:
  "ball_frames i bs fns acc =
     acc @ map (\<lambda>(j, bi). ball_entry_of (frame_num_at fns j) (dict_get bi (IntV 1) []))
             (filter (\<lambda>(j, bi). ball_detected bi) (enumerate i bs))"
  by (induction bs arbitrary: i acc) auto

lemma pass_loop_append:
  "pass_loop ps acc = acc @ map (\<lambda>(n, p). pass_entry_of p n) (enumerate (length acc) ps)"
  by (induction ps arbitrary: acc) auto

lemma interception_loop_append:
  "interception_loop xs acc =
     acc @ map (\<lambda>(n, x). interception_entry_of x n) (enumerate (length acc) xs)"
  by (induction xs arbitrary: acc) auto

lemma speed_items_append:
  "speed_items fn items acc = acc @ map (\<lambda>(pid, v). speed_entry_of fn pid v) items"
  by (induction items arbitrary: acc) auto

lemma speed_frames_append:
  "speed_frames i fs fns acc =
     acc @ concat (map (\<lambda>(j, info). map (\<lambda>(pid, v). speed_entry_of (frame_num_at fns j) pid v) info)
                     (enumerate i fs))"
  by (induction fs arbitrary: i acc) (auto simp: speed_items_append)

lemma possession_entry_of_fields:
  assumes "possession_entry_of fn p = Inr e"
  shows "tp_frame e = fn" and "tp_timestamp e = of_int fn / 30"
  using assms by (auto simp: possession_entry_of_def split: sum.splits)

lemma possession_entry_of_ok:
  "iter_possession p \<noteq> Inl TypeError \<Longrightarrow> \<exists>e. possession_entry_of fn p = Inr e"
  by (cases p) (auto simp: possession_entry_of_def)

lemma possession_entry_of_err:
  "iter_possession p = Inl TypeError \<Longrightarrow> possession_entry_of fn p = Inl TypeError"
  by (cases p) (auto simp: possession_entry_of_def)

lemma possession_frames_prefix:
  "\<exists>new. fst (possession_frames i ps fns acc) = acc @ new"
proof (induction ps arbitrary: i acc)
  case Nil
  show ?case by simp
next
  case (Cons p ps)
  show ?case
  proof (cases "possession_entry_of (frame_num_at fns i) p")
    case (Inl e)
    then show ?thesis by simp
  next
    case (Inr e)
    from Cons.IH [of "Suc i" "acc @ [e]"] obtain new
      where "fst (possession_frames (Suc i) ps fns (acc @ [e])) = (acc @ [e]) @ new" by blast
    with Inr show ?thesis by simp
  qed
qed

lemma possession_frames_frame_numbers:
  "\<exists>k\<le>length ps. \<exists>new. fst (possession_frames i ps fns acc) = acc @ new \<and> length new = k \<and>
      map tp_frame new = map (frame_num_at fns) [i..<i + k] \<and>
      (\<forall>e\<in>set new. tp_timestamp e = of_int (tp_frame e) / 30)"
proof (induction ps arbitrary: i acc)
  case Nil
  show ?case by simp
next
  case (Cons p ps)
  show ?case
  proof (cases "possession_entry_of (frame_num_at fns i) p")
    case (Inl e)
    then show ?thesis by simp
  next
    case (Inr e)
    from Cons.IH [of "Suc i" "acc @ [e]"] obtain k new
      where k: "k \<le> length ps"
        and new: "fst (possession_frames (Suc i) ps fns (acc @ [e])) = (acc @ [e]) @ new"
        and len: "length new = k"
        and fr: "map tp_frame new = map (frame_num_at fns) [Suc i..<Suc i + k]"
        and ts: "\<forall>e\<in>set new. tp_timestamp e = of_int (tp_frame e) / 30"
      by blast
    have "[i..<i + Suc k] = i # [Suc i..<Suc i + k]"
      by (simp add: upt_conv_Cons)
    with Inr k new len fr ts possession_entry_of_fields [OF Inr]
    have "Suc k \<le> length (p # ps) \<and>
          fst (possession_frames i (p # ps) fns acc) = acc @ (e # new) \<and>
          length (e # new) = Suc k \<and>
          map tp_frame (e # new) = map (frame_num_at fns) [i..<i + Suc k] \<and>
          (\<forall>e\<in>set (e # new). tp_timestamp e = of_int (tp_frame e) / 30)"
      by simp
    then show ?thesis by blast
  qed
qed

lemma possession_frames_no_error:
  "(snd (possession_frames i ps fns acc) = None) = (\<forall>p\<in>set ps. iter_possession p \<noteq> Inl TypeError)"
proof (induction ps arbitrary: i acc)
  case Nil
  show ?case by simp
next
  case (Cons p ps)
  show ?case
  proof (cases "iter_possession p = Inl TypeError")
    case True
    then show ?thesis by (simp add: possession_entry_of_err)
  next
    case False
    then obtain e where "possession_entry_of (frame_num_at fns i) p = Inr e"
      using possession_entry_of_ok by blast
    with False Cons.IH show ?thesis by simp
  qed
qed

lemma possession_frames_length:
  "\<forall>p\<in>set ps. iter_possession p \<noteq> Inl TypeError \<Longrightarrow>
   length (fst (possession_frames i ps fns acc)) = length acc + length ps"
proof (induction ps arbitrary: i acc)
  case Nil
  show ?case by simp
next
  case (Cons p ps)
  from Cons.prems have "iter_possession p \<noteq> Inl TypeError" by simp
  then obtain e where "possession_entry_of (frame_num_at fns i) p = Inr e"
    using possession_entry_of_ok by blast
  with Cons show ?case by simp
qed

lemma frame_num_at_beyond: "length fns \<le> i \<Longrightarrow> frame_num_at fns i = int i"
  by (simp add: frame_num_at_def)

lemma p_frame_entry [simp]: "p_frame (player_entry_of fn a p pid ti) = fn"
  by (simp add: player_entry_of_def Let_def)

lemma p_has_ball_entry [simp]: "p_has_ball (player_entry_of fn a p pid ti) = has_ball_of p pid"
  by (simp add: player_entry_of_def Let_def)

lemma p_timestamp_entry [simp]: "p_timestamp (player_entry_of fn a p pid ti) = of_int fn / 30"
  by (simp add: player_entry_of_def Let_def)

lemma b_frame_entry [simp]: "b_frame (ball_entry_of fn ti) = fn"
  by (simp add: ball_entry_of_def Let_def)

lemma b_timestamp_entry [simp]: "b_timestamp (ball_entry_of fn ti) = of_int fn / 30"
  by (simp add: ball_entry_of_def Let_def)

lemma sp_frame_entry [simp]: "sp_frame (speed_entry_of fn pid v) = fn"
  by (simp add: speed_entry_of_def)

lemma sp_timestamp_entry [simp]: "sp_timestamp (speed_entry_of fn pid v) = of_int fn / 30"
  by (simp add: speed_entry_of_def)

lemma has_ball_of_case:
  "has_ball_of possession player_id =
     (case possession of PossDict d \<Rightarrow> player_id \<in> set (map fst d)
      | PossList l \<Rightarrow> player_id \<in> set l | _ \<Rightarrow> False)"
  by (cases possession) (simp_all add: dict_has_def)

text \<open>
  Claim C3, as amended. In \<^verbatim>\<open>extract_player_data\<close> the flag \<^verbatim>\<open>has_ball\<close> of every
  record is the membership test of the player identifier in the frame's possession
  value when that value is a dictionary (its keys) or a list (its elements), and false
  for every other shape: a tuple, an integer, \<^verbatim>\<open>None\<close>. The method is a total function
  of its arguments: no shape of the possession value makes it raise. The test
  \<^verbatim>\<open>isinstance(possession, list)\<close> admits lists only, so the flag is false for a
  sequence of players that is not a list, even when it holds the player.
\<close>

theorem has_ball_membership:
  "map p_has_ball (drop (length (player_data s))
       (player_data (extract_player_data player_tracks player_assignment ball_aquisition
          frame_numbers s))) =
   concat (map (\<lambda>(tracks, assignment, possession).
                  map (\<lambda>(player_id, track_info).
                         (case possession of
                            PossDict d \<Rightarrow> player_id \<in> set (map fst d)
                          | PossList l \<Rightarrow> player_id \<in> set l
                          | PossTuple t \<Rightarrow> False
                          | PossInt n \<Rightarrow> False
                          | PossNone \<Rightarrow> False)) tracks)
             (zip player_tracks (zip player_assignment ball_aquisition)))"
proof -
  have "map p_has_ball (concat (map (\<lambda>(j, t, a, p). map (\<lambda>(pid, ti).
            player_entry_of (frame_num_at fns j) a p pid ti) t) (enumerate i fs))) =
        concat (map (\<lambda>(t, a, p). map (\<lambda>(pid, ti). has_ball_of p pid) t) fs)"
    for fns i and fs :: "(tracks \<times> assignment \<times> possession) list"
    by (induction fs arbitrary: i) (auto simp: case_prod_unfold)
  then show ?thesis
    by (simp add: extract_player_data_def player_frames_append has_ball_of_case)
qed

text \<open>
  The possession \<^verbatim>\<open>("p1",)\<close>, a sequence of players holding \<^verbatim>\<open>"p1"\<close>: the membership
  test would give true, the method records false.
\<close>

theorem has_ball_membership_counterexample:
  "map p_has_ball
     (player_data (extract_player_data [[(StrV ''p1'', [(''bbox'', [0, 0, 10, 10])])]]
        [[(StrV ''p1'', StrV ''Home'')]] [PossTuple [StrV ''p1'']] [30] (init ''out''))) \<noteq>
   [StrV ''p1'' \<in> set [StrV ''p1'']]"
  by (simp add: extract_player_data_def init_def)

text \<open>
  Claim C2. For the tracks \<^verbatim>\<open>{"p1": {"bbox": [0,0,10,10]}}\<close>, the assignment
  \<^verbatim>\<open>{"p1": "Home"}\<close>, the possession \<^verbatim>\<open>["p1"]\<close> and frame number 30,
  \<^verbatim>\<open>extract_player_data\<close> appends exactly one record, with the fields the specification
  lists. In general the method appends, frame by frame and player by player, the record
  built from the player's track, the frame's assignment and the frame's possession; in
  that record the team is \<^verbatim>\<open>'Unknown'\<close> when the player is not a key of the assignment,
  and the four box fields are \<^verbatim>\<open>None\<close> when the box has fewer than four components.
\<close>

theorem extract_player_data_example:
  "player_data (extract_player_data
       [[(StrV ''p1'', [(''bbox'', [0, 0, 10, 10])])]] [[(StrV ''p1'', StrV ''Home'')]]
       [PossList [StrV ''p1'']] [30] s) =
     player_data s @
       [\<lparr>p_frame = 30, p_player_id = StrV ''p1'', p_team = StrV ''Home'',
         p_x_min = Some 0, p_y_min = Some 0, p_x_max = Some 10, p_y_max = Some 10,
         p_has_ball = True, p_timestamp = 1\<rparr>] \<and>
   player_data (extract_player_data player_tracks player_assignment ball_aquisition
       frame_numbers s) =
     player_data s @
       concat (map (\<lambda>(i, tracks, assignment, possession).
                 map (\<lambda>(player_id, track_info).
                        player_entry_of
                          (if i < length frame_numbers then frame_numbers ! i else int i)
                          assignment possession player_id track_info)
                   tracks)
              (enumerate 0 (zip player_tracks (zip player_assignment ball_aquisition)))) \<and>
   (\<not> dict_has assignment player_id \<longrightarrow>
      p_team (player_entry_of frame_num assignment possession player_id track_info) =
        StrV ''Unknown'') \<and>
   (length (dict_get track_info ''bbox'' []) < 4 \<longrightarrow>
      (let r = player_entry_of frame_num assignment possession player_id track_info
       in p_x_min r = None \<and> p_y_min r = None \<and> p_x_max r = None \<and> p_y_max r = None))"
proof (intro conjI impI)
  show "player_data (extract_player_data
       [[(StrV ''p1'', [(''bbox'', [0, 0, 10, 10])])]] [[(StrV ''p1'', StrV ''Home'')]]
       [PossList [StrV ''p1'']] [30] s) =
     player_data s @
       [\<lparr>p_frame = 30, p_player_id = StrV ''p1'', p_team = StrV ''Home'',
         p_x_min = Some 0, p_y_min = Some 0, p_x_max = Some 10, p_y_max = Some 10,
         p_has_ball = True, p_timestamp = 1\<rparr>]"
    by (simp add: extract_player_data_def player_entry_of_def frame_num_at_def dict_get_def
        bbox_at_def Let_def)
next
  show "player_data (extract_player_data player_tracks player_assignment ball_aquisition
       frame_numbers s) =
     player_data s @
       concat (map (\<lambda>(i, tracks, assignment, possession).
                 map (\<lambda>(player_id, track_info).
                        player_entry_of
                          (if i < length frame_numbers then frame_numbers ! i else int i)
                          assignment possession player_id track_info)
                   tracks)
              (enumerate 0 (zip player_tracks (zip player_assignment ball_aquisition))))"
    by (simp add: extract_player_data_def player_frames_append frame_num_at_def)
next
  assume "\<not> dict_has assignment player_id"
  then have "map_of assignment player_id = None"
    by (simp add: dict_has_def map_of_eq_None_iff)
  then show "p_team (player_entry_of frame_num assignment possession player_id track_info) =
      StrV ''Unknown''"
    by (simp add: player_entry_of_def dict_get_def Let_def)
next
  assume "length (dict_get track_info ''bbox'' []) < 4"
  then show "let r = player_entry_of frame_num assignment possession player_id track_info
       in p_x_min r = None \<and> p_y_min r = None \<and> p_x_max r = None \<and> p_y_max r = None"
    by (simp add: player_entry_of_def bbox_at_def Let_def)
qed

text \<open>
  A call with two frames and no frame numbers: the player of the first frame is not in
  the assignment and has a box of three components.
\<close>

theorem extract_player_data_example_witness:
  "player_data (extract_player_data
       [[(IntV 7, [(''bbox'', [1, 2, 3])])], [(StrV ''p1'', [(''bbox'', [0, 0, 10, 10])])]]
       [[(StrV ''p1'', StrV ''Home'')], [(StrV ''p1'', StrV ''Home'')]]
       [PossNone, PossDict [(StrV ''p1'', IntV 1)]] [] (init ''out'')) =
     [\<lparr>p_frame = 0, p_player_id = IntV 7, p_team = StrV ''Unknown'',
       p_x_min = None, p_y_min = None, p_x_max = None, p_y_max = None,
       p_has_ball = False, p_timestamp = 0\<rparr>,
      \<lparr>p_frame = 1, p_player_id = StrV ''p1'', p_team = StrV ''Home'',
       p_x_min = Some 0, p_y_min = Some 0, p_x_max = Some 10, p_y_max = Some 10,
       p_has_ball = True, p_timestamp = 1 / 30\<rparr>]"
proof -
  let ?a = "[(StrV ''p1'', StrV ''Home'')]"
  let ?ti = "[(''bbox'', [1, 2, 3 :: rat])]"
  have h1: "\<not> dict_has ?a (IntV 7)" by (simp add: dict_has_def)
  have h2: "length (dict_get ?ti ''bbox'' []) < 4" by (simp add: dict_get_def)
  have e: "enumerate 0 [x, y] = [(0, x), (Suc 0, y)]" for x y :: "tracks \<times> assignment \<times> possession"
    by simp
  from extract_player_data_example [where assignment = ?a and player_id = "IntV 7"
      and track_info = ?ti and frame_num = 0 and possession = PossNone
      and player_tracks = "[[(IntV 7, ?ti)], [(StrV ''p1'', [(''bbox'', [0, 0, 10, 10])])]]"
      and player_assignment = "[?a, ?a]"
      and ball_aquisition = "[PossNone, PossDict [(StrV ''p1'', IntV 1)]]"
      and frame_numbers = "[]" and s = "init ''out''"] h1 h2
  have c: "player_data (extract_player_data
       [[(IntV 7, ?ti)], [(StrV ''p1'', [(''bbox'', [0, 0, 10, 10])])]] [?a, ?a]
       [PossNone, PossDict [(StrV ''p1'', IntV 1)]] [] (init ''out'')) =
      [player_entry_of 0 ?a PossNone (IntV 7) ?ti,
       player_entry_of 1 ?a (PossDict [(StrV ''p1'', IntV 1)]) (StrV ''p1'')
         [(''bbox'', [0, 0, 10, 10])]]"
    and t: "p_team (player_entry_of 0 ?a PossNone (IntV 7) ?ti) = StrV ''Unknown''"
    and n: "p_x_min (player_entry_of 0 ?a PossNone (IntV 7) ?ti) = None"
      "p_y_min (player_entry_of 0 ?a PossNone (IntV 7) ?ti) = None"
      "p_x_max (player_entry_of 0 ?a PossNone (IntV 7) ?ti) = None"
      "p_y_max (player_entry_of 0 ?a PossNone (IntV 7) ?ti) = None"
    by (simp_all add: e init_def Let_def)
  have first: "player_entry_of 0 ?a PossNone (IntV 7) ?ti =
      \<lparr>p_frame = 0, p_player_id = IntV 7, p_team = StrV ''Unknown'',
       p_x_min = None, p_y_min = None, p_x_max = None, p_y_max = None,
       p_has_ball = False, p_timestamp = 0\<rparr>"
    using t n by (intro player_entry.equality) (simp_all add: player_entry_of_def Let_def)
  have second: "player_entry_of 1 ?a (PossDict [(StrV ''p1'', IntV 1)]) (StrV ''p1'')
         [(''bbox'', [0, 0, 10, 10])] =
      \<lparr>p_frame = 1, p_player_id = StrV ''p1'', p_team = StrV ''Home'',
       p_x_min = Some 0, p_y_min = Some 0, p_x_max = Some 10, p_y_max = Some 10,
       p_has_ball = True, p_timestamp = 1 / 30\<rparr>"
    by (simp add: player_entry_of_def dict_get_def dict_has_def bbox_at_def Let_def)
  from c first second show ?thesis by simp
qed

text \<open>
  Claim C4. In the four frame-indexed methods the frame number of the records of frame
  \<open>i\<close> is \<^verbatim>\<open>frame_numbers[i]\<close> when \<open>i\<close> is within the sequence and \<open>i\<close> itself
  otherwise, whatever the length of \<^verbatim>\<open>frame_numbers\<close>; the sequence is never read out of
  range. Three of the methods cannot raise at all;
  \<^verbatim>\<open>extract_team_possession_data\<close> raises only on a possession value that is not
  iterable, never because of \<^verbatim>\<open>frame_numbers\<close>.
\<close>

theorem frame_number_fallback:
  "map p_frame (drop (length (player_data s))
      (player_data (extract_player_data player_tracks player_assignment ball_aquisition
         frame_numbers s))) =
     concat (map (\<lambda>(i, tracks, assignment, possession).
                    replicate (length tracks)
                      (if i < length frame_numbers then frame_numbers ! i else int i))
               (enumerate 0 (zip player_tracks (zip player_assignment ball_aquisition)))) \<and>
   map b_frame (drop (length (ball_data s))
      (ball_data (extract_ball_data ball_tracks frame_numbers s))) =
     map (\<lambda>(i, ball_info). if i < length frame_numbers then frame_numbers ! i else int i)
       (filter (\<lambda>(i, ball_info). ball_detected ball_info) (enumerate 0 ball_tracks)) \<and>
   map sp_frame (drop (length (speed_data s))
      (speed_data (extract_speed_data player_speed_per_frame frame_numbers s))) =
     concat (map (\<lambda>(i, speed_info).
                    replicate (length speed_info)
                      (if i < length frame_numbers then frame_numbers ! i else int i))
               (enumerate 0 player_speed_per_frame)) \<and>
   (let new = drop (length (team_possession_data s))
                (team_possession_data
                   (fst (extract_team_possession_data possessions frame_numbers s)))
    in map tp_frame new =
         map (\<lambda>i. if i < length frame_numbers then frame_numbers ! i else int i)
           [0..<length new] \<and>
       ((\<forall>p\<in>set possessions. iter_possession p \<noteq> Inl TypeError) \<longrightarrow>
          snd (extract_team_possession_data possessions frame_numbers s) = None \<and>
          length new = length possessions))"
proof (intro conjI)
  have "map p_frame (concat (map (\<lambda>(j, t, a, p). map (\<lambda>(pid, ti).
            player_entry_of (frame_num_at frame_numbers j) a p pid ti) t) (enumerate i fs))) =
        concat (map (\<lambda>(j, t, a, p). replicate (length t)
            (if j < length frame_numbers then frame_numbers ! j else int j)) (enumerate i fs))"
    for i and fs :: "(tracks \<times> assignment \<times> possession) list"
    by (induction fs arbitrary: i)
      (auto simp: case_prod_unfold frame_num_at_def map_replicate_const comp_def)
  then show "map p_frame (drop (length (player_data s))
      (player_data (extract_player_data player_tracks player_assignment ball_aquisition
         frame_numbers s))) =
     concat (map (\<lambda>(i, tracks, assignment, possession).
                    replicate (length tracks)
                      (if i < length frame_numbers then frame_numbers ! i else int i))
               (enumerate 0 (zip player_tracks (zip player_assignment ball_aquisition))))"
    by (simp add: extract_player_data_def player_frames_append)
next
  show "map b_frame (drop (length (ball_data s))
      (ball_data (extract_ball_data ball_tracks frame_numbers s))) =
     map (\<lambda>(i, ball_info). if i < length frame_numbers then frame_numbers ! i else int i)
       (filter (\<lambda>(i, ball_info). ball_detected ball_info) (enumerate 0 ball_tracks))"
    by (simp add: extract_ball_data_def ball_frames_append frame_num_at_def case_prod_unfold
        comp_def)
next
  have "map sp_frame (concat (map (\<lambda>(j, info). map (\<lambda>(pid, v).
            speed_entry_of (frame_num_at frame_numbers j) pid v) info) (enumerate i fs))) =
        concat (map (\<lambda>(j, info). replicate (length info)
            (if j < length frame_numbers then frame_numbers ! j else int j)) (enumerate i fs))"
    for i and fs :: "(scalar, rat) dict list"
    by (induction fs arbitrary: i)
      (auto simp: case_prod_unfold frame_num_at_def map_replicate_const comp_def)
  then show "map sp_frame (drop (length (speed_data s))
      (speed_data (extract_speed_data player_speed_per_frame frame_numbers s))) =
     concat (map (\<lambda>(i, speed_info).
                    replicate (length speed_info)
                      (if i < length frame_numbers then frame_numbers ! i else int i))
               (enumerate 0 player_speed_per_frame))"
    by (simp add: extract_speed_data_def speed_frames_append)
next
  let ?old = "team_possession_data s"
  let ?res = "possession_frames 0 possessions frame_numbers ?old"
  have ex: "extract_team_possession_data possessions frame_numbers s =
      (s\<lparr>team_possession_data := fst ?res\<rparr>, snd ?res)"
    by (simp add: extract_team_possession_data_def case_prod_unfold)
  from possession_frames_frame_numbers [of possessions 0 frame_numbers ?old]
  obtain k new where new: "fst ?res = ?old @ new" and len: "length new = k"
    and fr: "map tp_frame new = map (frame_num_at frame_numbers) [0..<0 + k]"
    by blast
  have a: "map tp_frame new =
      map (\<lambda>i. if i < length frame_numbers then frame_numbers ! i else int i) [0..<length new]"
    using fr len by (simp add: frame_num_at_def)
  have b: "(\<forall>p\<in>set possessions. iter_possession p \<noteq> Inl TypeError) \<longrightarrow>
      snd ?res = None \<and> length new = length possessions"
  proof
    assume it: "\<forall>p\<in>set possessions. iter_possession p \<noteq> Inl TypeError"
    then have "snd ?res = None" by (simp add: possession_frames_no_error)
    moreover have "length (fst ?res) = length ?old + length possessions"
      using it by (rule possession_frames_length)
    ultimately show "snd ?res = None \<and> length new = length possessions"
      using new by simp
  qed
  show "let new = drop (length (team_possession_data s))
                (team_possession_data
                   (fst (extract_team_possession_data possessions frame_numbers s)))
    in map tp_frame new =
         map (\<lambda>i. if i < length frame_numbers then frame_numbers ! i else int i)
           [0..<length new] \<and>
       ((\<forall>p\<in>set possessions. iter_possession p \<noteq> Inl TypeError) \<longrightarrow>
          snd (extract_team_possession_data possessions frame_numbers s) = None \<and>
          length new = length possessions)"
    using a b by (simp add: ex new Let_def)
qed

theorem frame_number_fallback_witness:
  "snd (extract_team_possession_data [PossList [IntV 4], PossDict [(StrV ''p1'', IntV 1)]] [30]
          (init ''out'')) = None \<and>
   map tp_frame (team_possession_data (fst (extract_team_possession_data
       [PossList [IntV 4], PossDict [(StrV ''p1'', IntV 1)]] [30] (init ''out'')))) = [30, 1]"
proof -
  let ?ps = "[PossList [IntV 4], PossDict [(StrV ''p1'', IntV 1)]]"
  have h: "\<forall>p\<in>set ?ps. iter_possession p \<noteq> Inl TypeError" by simp
  have e: "team_possession_data (init ''out'') = []" by (simp add: init_def)
  have u: "[0..<2] = [0, Suc 0]" by (simp add: upt_rec)
  from frame_number_fallback [where possessions = ?ps and frame_numbers = "[30]"
      and s = "init ''out''"] h e u
  show ?thesis by (simp add: Let_def)
qed

text \<open>
  Claim C5. \<^verbatim>\<open>extract_ball_data\<close> appends one record for exactly those frames whose
  ball-track entry is non-empty and has the key \<^verbatim>\<open>1\<close>, in frame order. A box of at least
  four components fills the box fields and gives the centre
  \<open>((x_min + x_max) / 2, (y_min + y_max) / 2)\<close>; a shorter box leaves the box and centre
  fields \<^verbatim>\<open>None\<close> in a record that is still emitted. The box \<^verbatim>\<open>[2,2,6,6]\<close> at frame 0
  has centre \<open>(4, 4)\<close> and timestamp 0, and an entry without the key \<^verbatim>\<open>1\<close> yields no
  record.
\<close>

theorem extract_ball_data_records:
  "ball_data (extract_ball_data ball_tracks frame_numbers s) =
     ball_data s @
       map (\<lambda>(i, ball_info).
              ball_entry_of (if i < length frame_numbers then frame_numbers ! i else int i)
                (dict_get ball_info (IntV 1) []))
         (filter (\<lambda>(i, ball_info). ball_info \<noteq> [] \<and> IntV 1 \<in> set (map fst ball_info))
            (enumerate 0 ball_tracks)) \<and>
   (4 \<le> length (dict_get track_info ''bbox'' []) \<longrightarrow>
      (let bbox = dict_get track_info ''bbox'' []; r = ball_entry_of frame_num track_info
       in b_x_min r = Some (bbox ! 0) \<and> b_y_min r = Some (bbox ! 1) \<and>
          b_x_max r = Some (bbox ! 2) \<and> b_y_max r = Some (bbox ! 3) \<and>
          b_center_x r = Some ((bbox ! 0 + bbox ! 2) / 2) \<and>
          b_center_y r = Some ((bbox ! 1 + bbox ! 3) / 2))) \<and>
   (length (dict_get track_info ''bbox'' []) < 4 \<longrightarrow>
      (let r = ball_entry_of frame_num track_info
       in b_x_min r = None \<and> b_y_min r = None \<and> b_x_max r = None \<and> b_y_max r = None \<and>
          b_center_x r = None \<and> b_center_y r = None)) \<and>
   ball_data (extract_ball_data [[(IntV 1, [(''bbox'', [2, 2, 6, 6])])]] [0] s) =
     ball_data s @
       [\<lparr>b_frame = 0, b_x_min = Some 2, b_y_min = Some 2, b_x_max = Some 6, b_y_max = Some 6,
         b_center_x = Some 4, b_center_y = Some 4, b_timestamp = 0\<rparr>] \<and>
   ball_data (extract_ball_data [[(IntV 2, [(''bbox'', [2, 2, 6, 6])])]] [0] s) = ball_data s"
proof (intro conjI impI)
  show "ball_data (extract_ball_data ball_tracks frame_numbers s) =
     ball_data s @
       map (\<lambda>(i, ball_info).
              ball_entry_of (if i < length frame_numbers then frame_numbers ! i else int i)
                (dict_get ball_info (IntV 1) []))
         (filter (\<lambda>(i, ball_info). ball_info \<noteq> [] \<and> IntV 1 \<in> set (map fst ball_info))
            (enumerate 0 ball_tracks))"
    by (simp add: extract_ball_data_def ball_frames_append ball_detected_def dict_has_def
        frame_num_at_def)
next
  assume "4 \<le> length (dict_get track_info ''bbox'' [])"
  then show "let bbox = dict_get track_info ''bbox'' []; r = ball_entry_of frame_num track_info
       in b_x_min r = Some (bbox ! 0) \<and> b_y_min r = Some (bbox ! 1) \<and>
          b_x_max r = Some (bbox ! 2) \<and> b_y_max r = Some (bbox ! 3) \<and>
          b_center_x r = Some ((bbox ! 0 + bbox ! 2) / 2) \<and>
          b_center_y r = Some ((bbox ! 1 + bbox ! 3) / 2)"
    by (simp add: ball_entry_of_def bbox_at_def Let_def)
next
  assume "length (dict_get track_info ''bbox'' []) < 4"
  then show "let r = ball_entry_of frame_num track_info
       in b_x_min r = None \<and> b_y_min r = None \<and> b_x_max r = None \<and> b_y_max r = None \<and>
          b_center_x r = None \<and> b_center_y r = None"
    by (simp add: ball_entry_of_def bbox_at_def Let_def)
next
  show "ball_data (extract_ball_data [[(IntV 1, [(''bbox'', [2, 2, 6, 6])])]] [0] s) =
     ball_data s @
       [\<lparr>b_frame = 0, b_x_min = Some 2, b_y_min = Some 2, b_x_max = Some 6, b_y_max = Some 6,
         b_center_x = Some 4, b_center_y = Some 4, b_timestamp = 0\<rparr>]"
    by (simp add: extract_ball_data_def ball_detected_def dict_has_def ball_entry_of_def
        frame_num_at_def dict_get_def bbox_at_def Let_def)
next
  show "ball_data (extract_ball_data [[(IntV 2, [(''bbox'', [2, 2, 6, 6])])]] [0] s) = ball_data s"
    by (simp add: extract_ball_data_def ball_detected_def dict_has_def)
qed

theorem extract_ball_data_records_witness:
  "ball_entry_of 3 [(''bbox'', [1, 2, 5, 8, 9])] =
     \<lparr>b_frame = 3, b_x_min = Some 1, b_y_min = Some 2, b_x_max = Some 5, b_y_max = Some 8,
      b_center_x = Some 3, b_center_y = Some 5, b_timestamp = 1 / 10\<rparr> \<and>
   ball_entry_of 3 [(''bbox'', [1, 2, 5])] =
     \<lparr>b_frame = 3, b_x_min = None, b_y_min = None, b_x_max = None, b_y_max = None,
      b_center_x = None, b_center_y = None, b_timestamp = 1 / 10\<rparr>"
proof -
  have l: "4 \<le> length (dict_get [(''bbox'', [1, 2, 5, 8, 9 :: rat])] ''bbox'' [])"
    by (simp add: dict_get_def)
  have s: "length (dict_get [(''bbox'', [1, 2, 5 :: rat])] ''bbox'' []) < 4"
    by (simp add: dict_get_def)
  have f: "b_frame (ball_entry_of 3 ti) = 3" "b_timestamp (ball_entry_of 3 ti) = 1 / 10" for ti
    by simp_all
  from extract_ball_data_records [where track_info = "[(''bbox'', [1, 2, 5, 8, 9])]"
      and frame_num = 3] l
  have a: "ball_entry_of 3 [(''bbox'', [1, 2, 5, 8, 9])] =
     \<lparr>b_frame = 3, b_x_min = Some 1, b_y_min = Some 2, b_x_max = Some 5, b_y_max = Some 8,
      b_center_x = Some 3, b_center_y = Some 5, b_timestamp = 1 / 10\<rparr>"
    using f by (intro ball_entry.equality) (simp_all add: Let_def dict_get_def)
  from extract_ball_data_records [where track_info = "[(''bbox'', [1, 2, 5])]"
      and frame_num = 3] s
  have b: "ball_entry_of 3 [(''bbox'', [1, 2, 5])] =
     \<lparr>b_frame = 3, b_x_min = None, b_y_min = None, b_x_max = None, b_y_max = None,
      b_center_x = None, b_center_y = None, b_timestamp = 1 / 10\<rparr>"
    using f by (intro ball_entry.equality) (simp_all add: Let_def)
  from a b show ?thesis by simp
qed

text \<open>
  Claim C6. \<^verbatim>\<open>extract_pass_data\<close> and \<^verbatim>\<open>extract_interception_data\<close> leave the same
  state for any two values of their argument \<^verbatim>\<open>frame_numbers\<close>.
\<close>

theorem frame_numbers_ignored:
  "extract_pass_data passes frame_numbers s = extract_pass_data passes frame_numbers' s \<and>
   extract_interception_data interceptions frame_numbers s =
     extract_interception_data interceptions frame_numbers' s"
  by (simp add: extract_pass_data_def extract_interception_data_def)

text \<open>
  Claim C8. Every extraction method changes the state only by appending to its own
  collection: the result is the state before with new records after the old ones of
  that collection, so the other five collections and every existing record are as they
  were. For \<^verbatim>\<open>extract_team_possession_data\<close> this also holds of the state left behind
  by a call that raised.
\<close>

theorem extraction_append_only:
  "(\<exists>new. extract_player_data player_tracks player_assignment ball_aquisition frame_numbers s =
      s\<lparr>player_data := player_data s @ new\<rparr>) \<and>
   (\<exists>new. extract_ball_data ball_tracks frame_numbers s = s\<lparr>ball_data := ball_data s @ new\<rparr>) \<and>
   (\<exists>new. extract_pass_data passes frame_numbers s = s\<lparr>pass_data := pass_data s @ new\<rparr>) \<and>
   (\<exists>new. extract_interception_data interceptions frame_numbers s =
      s\<lparr>interception_data := interception_data s @ new\<rparr>) \<and>
   (\<exists>new. extract_speed_data player_speed_per_frame frame_numbers s =
      s\<lparr>speed_data := speed_data s @ new\<rparr>) \<and>
   (\<exists>new. fst (extract_team_possession_data possessions frame_numbers s) =
      s\<lparr>team_possession_data := team_possession_data s @ new\<rparr>)"
proof (intro conjI)
  show "\<exists>new. extract_player_data player_tracks player_assignment ball_aquisition frame_numbers s =
      s\<lparr>player_data := player_data s @ new\<rparr>"
    by (simp only: extract_player_data_def player_frames_append) blast
  show "\<exists>new. extract_ball_data ball_tracks frame_numbers s = s\<lparr>ball_data := ball_data s @ new\<rparr>"
    by (simp only: extract_ball_data_def ball_frames_append) blast
  show "\<exists>new. extract_pass_data passes frame_numbers s = s\<lparr>pass_data := pass_data s @ new\<rparr>"
    by (simp only: extract_pass_data_def pass_loop_append) blast
  show "\<exists>new. extract_interception_data interceptions frame_numbers s =
      s\<lparr>interception_data := interception_data s @ new\<rparr>"
    by (simp only: extract_interception_data_def interception_loop_append) blast
  show "\<exists>new. extract_speed_data player_speed_per_frame frame_numbers s =
      s\<lparr>speed_data := speed_data s @ new\<rparr>"
    by (simp only: extract_speed_data_def speed_frames_append) blast
  from possession_frames_prefix [of 0 possessions frame_numbers "team_possession_data s"]
  obtain new where
    "fst (possession_frames 0 possessions frame_numbers (team_possession_data s)) =
       team_possession_data s @ new" by blast
  then have "fst (extract_team_possession_data possessions frame_numbers s) =
      s\<lparr>team_possession_data := team_possession_data s @ new\<rparr>"
    by (simp add: extract_team_possession_data_def case_prod_unfold)
  then show "\<exists>new. fst (extract_team_possession_data possessions frame_numbers s) =
      s\<lparr>team_possession_data := team_possession_data s @ new\<rparr>" by blast
qed

text \<open>
  Claim C10. A pass dictionary without the key \<^verbatim>\<open>start_frame\<close> (or \<^verbatim>\<open>end_frame\<close>) yields a
  record whose frame field is \<^verbatim>\<open>None\<close> while the matching timestamp is 0, the missing
  frame counting as 0 in the duration; an interception dictionary without the key
  \<^verbatim>\<open>frame\<close> yields a record with frame \<^verbatim>\<open>None\<close> and timestamp 0. One such record is
  appended per input dictionary.
\<close>

theorem missing_frame_keys:
  "pass_data (extract_pass_data passes frame_numbers s) =
     pass_data s @
       map (\<lambda>(n, pass_info). pass_entry_of pass_info n)
         (enumerate (length (pass_data s)) passes) \<and>
   (pi_start_frame pass_info = None \<longrightarrow>
      (let r = pass_entry_of pass_info n
       in ps_start_frame r = None \<and> ps_start_timestamp r = 0 \<and>
          ps_duration r = of_int (get_or (pi_end_frame pass_info) 0 - 0) / 30)) \<and>
   (pi_end_frame pass_info = None \<longrightarrow>
      (let r = pass_entry_of pass_info n
       in ps_end_frame r = None \<and> ps_end_timestamp r = 0 \<and>
          ps_duration r = of_int (0 - get_or (pi_start_frame pass_info) 0) / 30)) \<and>
   interception_data (extract_interception_data interceptions frame_numbers s) =
     interception_data s @
       map (\<lambda>(n, interception_info). interception_entry_of interception_info n)
         (enumerate (length (interception_data s)) interceptions) \<and>
   (ii_frame interception_info = None \<longrightarrow>
      (let r = interception_entry_of interception_info n
       in ic_frame r = None \<and> ic_timestamp r = 0))"
  by (simp add: extract_pass_data_def pass_loop_append extract_interception_data_def
      interception_loop_append pass_entry_of_def interception_entry_of_def get_or_def Let_def)

theorem missing_frame_keys_witness:
  "pass_data (extract_pass_data
      [\<lparr>pi_pass_id = None, pi_start_frame = None, pi_end_frame = Some 60,
        pi_passer_id = Some (StrV ''p1''), pi_receiver_id = Some (StrV ''p2''),
        pi_passer_team = None, pi_receiver_team = None, pi_pass_type = None\<rparr>] []
      (init ''out'')) =
     [\<lparr>ps_pass_id = IntV 0, ps_start_frame = None, ps_end_frame = Some 60,
       ps_passer_id = Some (StrV ''p1''), ps_receiver_id = Some (StrV ''p2''),
       ps_passer_team = None, ps_receiver_team = None, ps_pass_type = StrV ''Unknown'',
       ps_start_timestamp = 0, ps_end_timestamp = 2, ps_duration = 2\<rparr>] \<and>
   interception_data (extract_interception_data
      [\<lparr>ii_interception_id = Some (IntV 9), ii_frame = None, ii_interceptor_id = None,
        ii_interceptor_team = None, ii_original_team = None\<rparr>] [] (init ''out'')) =
     [\<lparr>ic_interception_id = IntV 9, ic_frame = None, ic_interceptor_id = None,
       ic_interceptor_team = None, ic_original_team = None, ic_timestamp = 0\<rparr>]"
proof -
  let ?p = "\<lparr>pi_pass_id = None, pi_start_frame = None, pi_end_frame = Some 60,
        pi_passer_id = Some (StrV ''p1''), pi_receiver_id = Some (StrV ''p2''),
        pi_passer_team = None, pi_receiver_team = None, pi_pass_type = None\<rparr>"
  let ?i = "\<lparr>ii_interception_id = Some (IntV 9), ii_frame = None, ii_interceptor_id = None,
        ii_interceptor_team = None, ii_original_team = None\<rparr>"
  have hp: "pi_start_frame ?p = None" by simp
  have hi: "ii_frame ?i = None" by simp
  from missing_frame_keys [where passes = "[?p]" and interceptions = "[?i]"
      and pass_info = ?p and interception_info = ?i and n = 0 and s = "init ''out''"
      and frame_numbers = "[]"] hp hi
  show ?thesis
    by (simp add: init_def pass_entry_of_def interception_entry_of_def get_or_def Let_def)
qed

text \<open>
  Within one record the timestamp and the frame agree in every reachable state; where a
  pass or interception record has no frame, its timestamp is 0.
\<close>

lemma reachable_timestamps:
  "reachable s \<Longrightarrow>
   (\<forall>r\<in>set (player_data s). p_timestamp r = of_int (p_frame r) / 30) \<and>
   (\<forall>r\<in>set (ball_data s). b_timestamp r = of_int (b_frame r) / 30) \<and>
   (\<forall>r\<in>set (speed_data s). sp_timestamp r = of_int (sp_frame r) / 30) \<and>
   (\<forall>r\<in>set (team_possession_data s). tp_timestamp r = of_int (tp_frame r) / 30) \<and>
   (\<forall>r\<in>set (pass_data s).
      (case ps_start_frame r of
         Some f \<Rightarrow> ps_start_timestamp r = of_int f / 30
       | None \<Rightarrow> ps_start_timestamp r = 0) \<and>
      (case ps_end_frame r of
         Some f \<Rightarrow> ps_end_timestamp r = of_int f / 30
       | None \<Rightarrow> ps_end_timestamp r = 0)) \<and>
   (\<forall>r\<in>set (interception_data s).
      (case ic_frame r of
         Some f \<Rightarrow> ic_timestamp r = of_int f / 30
       | None \<Rightarrow> ic_timestamp r = 0))"
proof (induction rule: reachable.induct)
  case (reach_init dir)
  show ?case by (simp add: init_def)
next
  case (reach_player s pt pa ba fns)
  then show ?case
    by (auto simp: extract_player_data_def player_frames_append)
next
  case (reach_ball s bt fns)
  then show ?case
    by (auto simp: extract_ball_data_def ball_frames_append)
next
  case (reach_pass s ps fns)
  then show ?case
    by (auto simp: extract_pass_data_def pass_loop_append pass_entry_of_def get_or_def
        split: option.splits)
next
  case (reach_interception s xs fns)
  then show ?case
    by (auto simp: extract_interception_data_def interception_loop_append
        interception_entry_of_def get_or_def split: option.splits)
next
  case (reach_speed s sps fns)
  then show ?case
    by (auto simp: extract_speed_data_def speed_frames_append)
next
  case (reach_team s ba fns)
  from possession_frames_frame_numbers [of ba 0 fns "team_possession_data s"]
  obtain new where new: "fst (possession_frames 0 ba fns (team_possession_data s)) =
      team_possession_data s @ new"
    and ts: "\<forall>e\<in>set new. tp_timestamp e = of_int (tp_frame e) / 30"
    by blast
  have "fst (extract_team_possession_data ba fns s) =
      s\<lparr>team_possession_data := team_possession_data s @ new\<rparr>"
    using new by (simp add: extract_team_possession_data_def case_prod_unfold)
  with reach_team ts show ?case by auto
qed

lemma pass_loop_frames:
  "map (\<lambda>r. (ps_start_frame r, ps_start_timestamp r, ps_end_frame r, ps_end_timestamp r))
     (map (\<lambda>(n, p). pass_entry_of p n) (enumerate k passes)) =
   map (\<lambda>p. (pi_start_frame p,
              (case pi_start_frame p of Some f \<Rightarrow> of_int f / 30 | None \<Rightarrow> 0),
              pi_end_frame p,
              (case pi_end_frame p of Some f \<Rightarrow> of_int f / 30 | None \<Rightarrow> 0))) passes"
  by (induction passes arbitrary: k)
    (simp_all add: pass_entry_of_def get_or_def split: option.splits)

lemma interception_loop_frames:
  "map (\<lambda>r. (ic_frame r, ic_timestamp r))
     (map (\<lambda>(n, x). interception_entry_of x n) (enumerate k interceptions)) =
   map (\<lambda>x. (ii_frame x, (case ii_frame x of Some f \<Rightarrow> of_int f / 30 | None \<Rightarrow> 0)))
     interceptions"
  by (induction interceptions arbitrary: k)
    (simp_all add: interception_entry_of_def get_or_def split: option.splits)

text \<open>
  Claim C1, as amended. Every record an extraction method appends has the timestamp
  \<open>frame / 30\<close>. For the player, ball, speed and team-possession records of frame index
  \<open>i\<close> the frame is the resolved frame number, and both fields of the record come from
  it. For a pass record the start and end frame are the ones the event reports and each
  timestamp is that frame divided by 30; for an interception record likewise. Where
  the event does not report the frame, the frame field is \<^verbatim>\<open>None\<close> and the timestamp
  is 0: such a record has a timestamp and no frame number, so the claim without this
  case does not hold of it.
\<close>

theorem timestamps_from_frames:
  "map (\<lambda>r. (p_frame r, p_timestamp r))
     (drop (length (player_data s))
        (player_data (extract_player_data player_tracks player_assignment ball_aquisition
           frame_numbers s))) =
     concat (map (\<lambda>(i, tracks, assignment, possession).
                    replicate (length tracks)
                      (frame_num_at frame_numbers i, of_int (frame_num_at frame_numbers i) / 30))
               (enumerate 0 (zip player_tracks (zip player_assignment ball_aquisition)))) \<and>
   map (\<lambda>r. (b_frame r, b_timestamp r))
     (drop (length (ball_data s)) (ball_data (extract_ball_data ball_tracks frame_numbers s))) =
     map (\<lambda>(i, ball_info).
            (frame_num_at frame_numbers i, of_int (frame_num_at frame_numbers i) / 30))
       (filter (\<lambda>(i, ball_info). ball_detected ball_info) (enumerate 0 ball_tracks)) \<and>
   map (\<lambda>r. (sp_frame r, sp_timestamp r))
     (drop (length (speed_data s))
        (speed_data (extract_speed_data player_speed_per_frame frame_numbers s))) =
     concat (map (\<lambda>(i, speed_info).
                    replicate (length speed_info)
                      (frame_num_at frame_numbers i, of_int (frame_num_at frame_numbers i) / 30))
               (enumerate 0 player_speed_per_frame)) \<and>
   (let new = drop (length (team_possession_data s))
                (team_possession_data
                   (fst (extract_team_possession_data possessions frame_numbers s)))
    in map (\<lambda>r. (tp_frame r, tp_timestamp r)) new =
         map (\<lambda>i. (frame_num_at frame_numbers i, of_int (frame_num_at frame_numbers i) / 30))
           [0..<length new]) \<and>
   map (\<lambda>r. (ps_start_frame r, ps_start_timestamp r, ps_end_frame r, ps_end_timestamp r))
     (drop (length (pass_data s)) (pass_data (extract_pass_data passes frame_numbers s))) =
     map (\<lambda>pass_info.
            (pi_start_frame pass_info,
             (case pi_start_frame pass_info of Some f \<Rightarrow> of_int f / 30 | None \<Rightarrow> 0),
             pi_end_frame pass_info,
             (case pi_end_frame pass_info of Some f \<Rightarrow> of_int f / 30 | None \<Rightarrow> 0)))
       passes \<and>
   map (\<lambda>r. (ic_frame r, ic_timestamp r))
     (drop (length (interception_data s))
        (interception_data (extract_interception_data interceptions frame_numbers s))) =
     map (\<lambda>interception_info.
            (ii_frame interception_info,
             (case ii_frame interception_info of Some f \<Rightarrow> of_int f / 30 | None \<Rightarrow> 0)))
       interceptions"
proof (intro conjI)
  have "map (\<lambda>r. (p_frame r, p_timestamp r)) (concat (map (\<lambda>(j, t, a, p). map (\<lambda>(pid, ti).
            player_entry_of (frame_num_at frame_numbers j) a p pid ti) t) (enumerate i fs))) =
        concat (map (\<lambda>(j, t, a, p). replicate (length t)
            (frame_num_at frame_numbers j, of_int (frame_num_at frame_numbers j) / 30))
          (enumerate i fs))"
    for i and fs :: "(tracks \<times> assignment \<times> possession) list"
    by (induction fs arbitrary: i) (auto simp: case_prod_unfold map_replicate_const comp_def)
  then show "map (\<lambda>r. (p_frame r, p_timestamp r))
     (drop (length (player_data s))
        (player_data (extract_player_data player_tracks player_assignment ball_aquisition
           frame_numbers s))) =
     concat (map (\<lambda>(i, tracks, assignment, possession).
                    replicate (length tracks)
                      (frame_num_at frame_numbers i, of_int (frame_num_at frame_numbers i) / 30))
               (enumerate 0 (zip player_tracks (zip player_assignment ball_aquisition))))"
    by (simp add: extract_player_data_def player_frames_append)
next
  show "map (\<lambda>r. (b_frame r, b_timestamp r))
     (drop (length (ball_data s)) (ball_data (extract_ball_data ball_tracks frame_numbers s))) =
     map (\<lambda>(i, ball_info).
            (frame_num_at frame_numbers i, of_int (frame_num_at frame_numbers i) / 30))
       (filter (\<lambda>(i, ball_info). ball_detected ball_info) (enumerate 0 ball_tracks))"
    by (simp add: extract_ball_data_def ball_frames_append case_prod_unfold comp_def)
next
  have "map (\<lambda>r. (sp_frame r, sp_timestamp r)) (concat (map (\<lambda>(j, info). map (\<lambda>(pid, v).
            speed_entry_of (frame_num_at frame_numbers j) pid v) info) (enumerate i fs))) =
        concat (map (\<lambda>(j, info). replicate (length info)
            (frame_num_at frame_numbers j, of_int (frame_num_at frame_numbers j) / 30))
          (enumerate i fs))"
    for i and fs :: "(scalar, rat) dict list"
    by (induction fs arbitrary: i) (auto simp: case_prod_unfold map_replicate_const comp_def)
  then show "map (\<lambda>r. (sp_frame r, sp_timestamp r))
     (drop (length (speed_data s))
        (speed_data (extract_speed_data player_speed_per_frame frame_numbers s))) =
     concat (map (\<lambda>(i, speed_info).
                    replicate (length speed_info)
                      (frame_num_at frame_numbers i, of_int (frame_num_at frame_numbers i) / 30))
               (enumerate 0 player_speed_per_frame))"
    by (simp add: extract_speed_data_def speed_frames_append)
next
  let ?old = "team_possession_data s"
  let ?res = "possession_frames 0 possessions frame_numbers ?old"
  have ex: "extract_team_possession_data possessions frame_numbers s =
      (s\<lparr>team_possession_data := fst ?res\<rparr>, snd ?res)"
    by (simp add: extract_team_possession_data_def case_prod_unfold)
  from possession_frames_frame_numbers [of possessions 0 frame_numbers ?old]
  obtain k new where new: "fst ?res = ?old @ new" and len: "length new = k"
    and fr: "map tp_frame new = map (frame_num_at frame_numbers) [0..<0 + k]"
    and ts: "\<forall>e\<in>set new. tp_timestamp e = of_int (tp_frame e) / 30"
    by blast
  have "map (\<lambda>r. (tp_frame r, tp_timestamp r)) new =
      map (\<lambda>f. (f, of_int f / 30)) (map tp_frame new)"
    using ts by (simp add: comp_def)
  also have "\<dots> = map (\<lambda>i. (frame_num_at frame_numbers i,
      of_int (frame_num_at frame_numbers i) / 30)) [0..<length new]"
    using len by (simp add: fr comp_def)
  finally show "let new = drop (length (team_possession_data s))
                (team_possession_data
                   (fst (extract_team_possession_data possessions frame_numbers s)))
    in map (\<lambda>r. (tp_frame r, tp_timestamp r)) new =
         map (\<lambda>i. (frame_num_at frame_numbers i, of_int (frame_num_at frame_numbers i) / 30))
           [0..<length new]"
    by (simp add: ex new Let_def)
next
  show "map (\<lambda>r. (ps_start_frame r, ps_start_timestamp r, ps_end_frame r, ps_end_timestamp r))
     (drop (length (pass_data s)) (pass_data (extract_pass_data passes frame_numbers s))) =
     map (\<lambda>pass_info.
            (pi_start_frame pass_info,
             (case pi_start_frame pass_info of Some f \<Rightarrow> of_int f / 30 | None \<Rightarrow> 0),
             pi_end_frame pass_info,
             (case pi_end_frame pass_info of Some f \<Rightarrow> of_int f / 30 | None \<Rightarrow> 0)))
       passes"
    by (simp add: extract_pass_data_def pass_loop_append pass_loop_frames [unfolded map_map])
next
  show "map (\<lambda>r. (ic_frame r, ic_timestamp r))
     (drop (length (interception_data s))
        (interception_data (extract_interception_data interceptions frame_numbers s))) =
     map (\<lambda>interception_info.
            (ii_frame interception_info,
             (case ii_frame interception_info of Some f \<Rightarrow> of_int f / 30 | None \<Rightarrow> 0)))
       interceptions"
    by (simp add: extract_interception_data_def interception_loop_append
        interception_loop_frames [unfolded map_map])
qed

text \<open>
  A pass from frame 30 to frame 60 and an interception at frame 45, after a player
  record of frame 90.
\<close>

theorem timestamps_from_frames_witness:
  "map (\<lambda>r. (ps_start_frame r, ps_start_timestamp r, ps_end_frame r, ps_end_timestamp r))
     (pass_data (extract_pass_data
        [\<lparr>pi_pass_id = None, pi_start_frame = Some 30, pi_end_frame = Some 60,
          pi_passer_id = None, pi_receiver_id = None, pi_passer_team = None,
          pi_receiver_team = None, pi_pass_type = None\<rparr>] [] (init ''out''))) =
     [(Some 30, 1, Some 60, 2)] \<and>
   map (\<lambda>r. (ic_frame r, ic_timestamp r))
     (interception_data (extract_interception_data
        [\<lparr>ii_interception_id = None, ii_frame = Some 45, ii_interceptor_id = None,
          ii_interceptor_team = None, ii_original_team = None\<rparr>] [] (init ''out''))) =
     [(Some 45, 3 / 2)] \<and>
   map (\<lambda>r. (p_frame r, p_timestamp r))
     (player_data (extract_player_data [[(StrV ''p1'', [])]] [[]] [PossNone] [90]
        (init ''out''))) =
     [(90, 3)]"
  using timestamps_from_frames [where s = "init ''out''" and frame_numbers = "[90]"
      and passes = "[\<lparr>pi_pass_id = None, pi_start_frame = Some 30, pi_end_frame = Some 60,
          pi_passer_id = None, pi_receiver_id = None, pi_passer_team = None,
          pi_receiver_team = None, pi_pass_type = None\<rparr>]"
      and interceptions = "[\<lparr>ii_interception_id = None, ii_frame = Some 45,
          ii_interceptor_id = None, ii_interceptor_team = None, ii_original_team = None\<rparr>]"
      and player_tracks = "[[(StrV ''p1'', [])]]" and player_assignment = "[[]]"
      and ball_aquisition = "[PossNone]"]
  by (simp add: extract_pass_data_def extract_interception_data_def extract_player_data_def
      init_def frame_num_at_def pass_entry_of_def interception_entry_of_def get_or_def)

text \<open>
  A pass that reports no start frame: the record has the start timestamp 0 and no start
  frame of which it could be the thirtieth part.
\<close>

theorem timestamps_from_frames_counterexample:
  "map_option rat_of_int
     (ps_start_frame (hd (pass_data (extract_pass_data
        [\<lparr>pi_pass_id = None, pi_start_frame = None, pi_end_frame = Some 60,
          pi_passer_id = None, pi_receiver_id = None, pi_passer_team = None,
          pi_receiver_team = None, pi_pass_type = None\<rparr>] [] (init ''out''))))) \<noteq>
   Some (30 * ps_start_timestamp (hd (pass_data (extract_pass_data
        [\<lparr>pi_pass_id = None, pi_start_frame = None, pi_end_frame = Some 60,
          pi_passer_id = None, pi_receiver_id = None, pi_passer_team = None,
          pi_receiver_team = None, pi_pass_type = None\<rparr>] [] (init ''out'')))))"
  by (simp add: extract_pass_data_def init_def pass_entry_of_def)

section \<open>Properties of the summary report\<close>

lemma map_of_dict_set: "map_of (dict_set d k v) = (map_of d)(k \<mapsto> v)"
  by (induction d) (auto simp: fun_eq_iff)

lemma keys_dict_set: "fst ` set (dict_set d k v) = insert k (fst ` set d)"
  by (simp add: dom_map_of_conv_image_fst [symmetric] map_of_dict_set)

lemma distinct_dict_set: "distinct (map fst d) \<Longrightarrow> distinct (map fst (dict_set d k v))"
  by (induction d k v rule: dict_set.induct) (auto simp: keys_dict_set)

lemma dict_has_map_of: "dict_has d k = (map_of d k \<noteq> None)"
  by (simp add: dict_has_def map_of_eq_None_iff)

lemma group_speeds_distinct:
  "distinct (map fst avg) \<Longrightarrow> distinct (map fst (group_speeds es avg))"
  by (induction es arbitrary: avg) (simp_all add: Let_def distinct_dict_set)

lemma group_speeds_map_of:
  "map_of (group_speeds es avg) p =
     (if p \<in> sp_player_id ` set es \<or> map_of avg p \<noteq> None
      then Some (dict_get avg p [] @
                 map sp_speed_mps (filter (\<lambda>e. sp_player_id e = p) es))
      else None)"
proof (induction es arbitrary: avg)
  case Nil
  show ?case by (auto simp: dict_get_def)
next
  case (Cons e es)
  show ?case
    by (auto simp: Cons.IH Let_def map_of_dict_set dict_get_def dict_has_map_of
        split: option.splits)
qed

lemma average_items_ok:
  "\<forall>(k, v)\<in>set d. v \<noteq> [] \<Longrightarrow>
   average_items d = Inr (map (\<lambda>(k, v). (k, sum_list v / of_nat (length v))) d)"
  by (induction d) (auto simp: mean_speed_def)

lemma map_of_map_values:
  "map_of (map (\<lambda>(k, v). (k, f v)) d) p = map_option f (map_of d p)"
  by (induction d) auto


lemma group_speeds_nonempty:
  assumes "(k, v) \<in> set (group_speeds es [])"
  shows "v \<noteq> []"
proof -
  have d: "distinct (map fst (group_speeds es []))"
    by (rule group_speeds_distinct) simp
  with assms have m: "map_of (group_speeds es []) k = Some v"
    by simp
  then have "k \<in> sp_player_id ` set es"
    by (simp add: group_speeds_map_of split: if_splits)
  then obtain e where e: "e \<in> set es" "sp_player_id e = k" by blast
  then have "filter (\<lambda>e. sp_player_id e = k) es \<noteq> []"
    by (auto simp: filter_empty_conv)
  with m show ?thesis
    by (auto simp: group_speeds_map_of dict_get_def split: if_splits)
qed

lemma average_speeds:
  "\<exists>d. average_items (group_speeds es []) = Inr d \<and> distinct (map fst d) \<and>
     (\<forall>p. map_of d p =
        (if p \<in> sp_player_id ` set es
         then Some (sum_list (map sp_speed_mps (filter (\<lambda>e. sp_player_id e = p) es)) /
                    of_nat (length (filter (\<lambda>e. sp_player_id e = p) es)))
         else None))"
proof -
  let ?g = "group_speeds es []"
  let ?d = "map (\<lambda>(k, v). (k, sum_list v / of_nat (length v))) ?g"
  have ne: "\<forall>(k, v)\<in>set ?g. v \<noteq> []"
    using group_speeds_nonempty by blast
  then have a: "average_items ?g = Inr ?d"
    by (rule average_items_ok)
  have b: "distinct (map fst ?d)"
    using group_speeds_distinct [of "[]" es] by (simp add: comp_def case_prod_unfold)
  have c: "map_of ?d p =
        (if p \<in> sp_player_id ` set es
         then Some (sum_list (map sp_speed_mps (filter (\<lambda>e. sp_player_id e = p) es)) /
                    of_nat (length (filter (\<lambda>e. sp_player_id e = p) es)))
         else None)" for p
    by (simp add: map_of_map_values group_speeds_map_of dict_get_def)
  from a b c show ?thesis by blast
qed

text \<open>
  Claim C9. \<^verbatim>\<open>generate_summary_report\<close> never raises. Without player records the
  numbers of distinct frames and players and the duration are 0. The result has the key
  \<^verbatim>\<open>'average_player_speeds'\<close> exactly when there is a speed record, and then the mapping
  has one entry for each player with a speed record: the sum of that player's speeds in
  m/s divided by their number.
\<close>

theorem summary_report:
  "\<exists>r. generate_summary_report s = Inr r \<and>
     (player_data s = [] \<longrightarrow>
        total_frames_analyzed r = 0 \<and> total_players_detected r = 0 \<and>
        analysis_duration_seconds r = 0) \<and>
     ((average_player_speeds r \<noteq> None) = (speed_data s \<noteq> [])) \<and>
     (\<forall>d. average_player_speeds r = Some d \<longrightarrow>
        distinct (map fst d) \<and>
        (\<forall>p. map_of d p =
           (if p \<in> sp_player_id ` set (speed_data s)
            then Some (sum_list (map sp_speed_mps
                          (filter (\<lambda>e. sp_player_id e = p) (speed_data s))) /
                       of_nat (length (filter (\<lambda>e. sp_player_id e = p) (speed_data s))))
            else None)))"
proof (cases "speed_data s = []")
  case True
  then show ?thesis
    by (simp add: generate_summary_report_def Let_def)
next
  case False
  from average_speeds [of "speed_data s"] obtain d
    where d: "average_items (group_speeds (speed_data s) []) = Inr d"
      and dist: "distinct (map fst d)"
      and mean: "\<forall>p. map_of d p =
           (if p \<in> sp_player_id ` set (speed_data s)
            then Some (sum_list (map sp_speed_mps
                          (filter (\<lambda>e. sp_player_id e = p) (speed_data s))) /
                       of_nat (length (filter (\<lambda>e. sp_player_id e = p) (speed_data s))))
            else None)"
    by blast
  from False d dist mean show ?thesis
    by (simp add: generate_summary_report_def Let_def)
qed


theorem summary_report_witness:
  "\<exists>r. generate_summary_report
          (extract_speed_data [[(StrV ''p1'', 4)], [(StrV ''p1'', 8)]] [] (init ''out'')) =
        Inr r \<and>
      total_frames_analyzed r = 0 \<and> total_players_detected r = 0 \<and>
      analysis_duration_seconds r = 0 \<and>
      (\<exists>d. average_player_speeds r = Some d \<and> map_of d (StrV ''p1'') = Some 6)"
proof -
  let ?s = "extract_speed_data [[(StrV ''p1'', 4)], [(StrV ''p1'', 8)]] [] (init ''out'')"
  have p: "player_data ?s = []"
    by (simp add: extract_speed_data_def init_def)
  have sp: "speed_data ?s =
      [speed_entry_of 0 (StrV ''p1'') 4, speed_entry_of 1 (StrV ''p1'') 8]"
    by (simp add: extract_speed_data_def init_def frame_num_at_def)
  from summary_report [of ?s] obtain r
    where r: "generate_summary_report ?s = Inr r"
      and z: "player_data ?s = [] \<longrightarrow>
        total_frames_analyzed r = 0 \<and> total_players_detected r = 0 \<and>
        analysis_duration_seconds r = 0"
      and k: "(average_player_speeds r \<noteq> None) = (speed_data ?s \<noteq> [])"
      and m: "\<forall>d. average_player_speeds r = Some d \<longrightarrow>
        distinct (map fst d) \<and>
        (\<forall>p. map_of d p =
           (if p \<in> sp_player_id ` set (speed_data ?s)
            then Some (sum_list (map sp_speed_mps
                          (filter (\<lambda>e. sp_player_id e = p) (speed_data ?s))) /
                       of_nat (length (filter (\<lambda>e. sp_player_id e = p) (speed_data ?s))))
            else None))"
    by blast
  from k sp obtain d where d: "average_player_speeds r = Some d"
    by auto
  with m have "map_of d (StrV ''p1'') =
      (if StrV ''p1'' \<in> sp_player_id ` set (speed_data ?s)
       then Some (sum_list (map sp_speed_mps
                     (filter (\<lambda>e. sp_player_id e = StrV ''p1'') (speed_data ?s))) /
                  of_nat (length (filter (\<lambda>e. sp_player_id e = StrV ''p1'') (speed_data ?s))))
       else None)"
    by blast
  then have "map_of d (StrV ''p1'') = Some 6"
    by (simp add: sp speed_entry_of_def)
  with r z p d show ?thesis by blast
qed

section \<open>Writing the structured file and reading it back\<close>

text \<open>The decimal strings the encoder produces for integer keys, on two examples.\<close>

lemma str_of_int_example: "str_of_int 7 = ''7'' \<and> str_of_int (- 12) = ''-12''"
  by code_simp

lemma dict_set_fresh: "k \<notin> fst ` set d \<Longrightarrow> dict_set d k v = d @ [(k, v)]"
  by (induction d) auto

lemma fold_dict_set_fresh:
  "distinct (map fst kvs) \<Longrightarrow> fst ` set kvs \<inter> fst ` set acc = {} \<Longrightarrow>
   fold (\<lambda>(k, v) d. dict_set d k v) kvs acc = acc @ kvs"
proof (induction kvs arbitrary: acc)
  case Nil
  show ?case by simp
next
  case (Cons kv kvs)
  obtain k v where kv: "kv = (k, v)" by (cases kv)
  from Cons.prems kv have fresh: "k \<notin> fst ` set acc" by auto
  from Cons.prems kv have d: "distinct (map fst kvs)"
    and dj: "fst ` set kvs \<inter> fst ` set (acc @ [(k, v)]) = {}"
    by auto
  from Cons.IH [OF d dj] kv fresh show ?case
    by (simp add: dict_set_fresh)
qed

lemma json_roundtrip_list:
  "\<forall>x\<in>set xs. json_load (json_dump x) = x \<Longrightarrow>
   json_load (json_dump (PyList xs)) = PyList xs"
  by (simp add: map_idI)

lemma json_roundtrip_dict:
  assumes "distinct (map fst kvs)"
    and "\<forall>(k, v)\<in>set kvs. (\<exists>str. k = StrV str) \<and> json_load (json_dump v) = v"
  shows "json_load (json_dump (PyDict kvs)) = PyDict kvs"
proof -
  have "map (\<lambda>(k, v). (StrV k, v))
          (map (\<lambda>(k, v). (k, json_load v)) (map (\<lambda>(k, v). (key_str k, json_dump v)) kvs)) =
        kvs"
  proof -
    have "map (\<lambda>(k, v). (StrV k, v))
            (map (\<lambda>(k, v). (k, json_load v)) (map (\<lambda>(k, v). (key_str k, json_dump v)) kvs)) =
          map (\<lambda>(k, v). (StrV (key_str k), json_load (json_dump v))) kvs"
      by (simp add: case_prod_unfold comp_def)
    also have "\<dots> = kvs"
      using assms(2) by (intro map_idI) auto
    finally show ?thesis .
  qed
  moreover have "fold (\<lambda>(k, v) d. dict_set d (StrV k) v) xs acc =
      fold (\<lambda>(k, v) d. dict_set d k v) (map (\<lambda>(k, v). (StrV k, v)) xs) acc"
    for xs :: "(string \<times> pyval) list" and acc
    by (induction xs arbitrary: acc) auto
  ultimately have "json_load (json_dump (PyDict kvs)) =
      PyDict (fold (\<lambda>(k, v) d. dict_set d k v) kvs [])"
    by simp
  with assms(1) show ?thesis
    by (simp add: fold_dict_set_fresh)
qed

lemma json_roundtrip_scalar [simp]: "json_load (json_dump (scalar_val x)) = scalar_val x"
  by (cases x) (simp_all add: scalar_val_def)

lemma json_roundtrip_int [simp]: "json_load (json_dump (int_val n)) = int_val n"
  by (simp add: int_val_def)

lemma json_roundtrip_opt [simp]:
  "(\<And>v. json_load (json_dump (f v)) = f v) \<Longrightarrow>
   json_load (json_dump (opt_val f x)) = opt_val f x"
  by (cases x) (simp_all add: opt_val_def)

lemma json_roundtrip_player [simp]: "json_load (json_dump (player_val r)) = player_val r"
  unfolding player_val_def by (rule json_roundtrip_dict) simp_all

lemma json_roundtrip_ball [simp]: "json_load (json_dump (ball_val r)) = ball_val r"
  unfolding ball_val_def by (rule json_roundtrip_dict) simp_all

lemma json_roundtrip_pass [simp]: "json_load (json_dump (pass_val r)) = pass_val r"
  unfolding pass_val_def by (rule json_roundtrip_dict) simp_all

lemma json_roundtrip_interception [simp]:
  "json_load (json_dump (interception_val r)) = interception_val r"
  unfolding interception_val_def by (rule json_roundtrip_dict) simp_all

lemma json_roundtrip_speed [simp]: "json_load (json_dump (speed_val r)) = speed_val r"
  unfolding speed_val_def by (rule json_roundtrip_dict) simp_all


lemma mark_players_distinct:
  "distinct (map fst d) \<Longrightarrow> distinct (map fst (mark_players players d))"
  by (induction players arbitrary: d) (simp_all add: distinct_dict_set)

lemma possession_entry_of_distinct:
  "possession_entry_of fn p = Inr e \<Longrightarrow> distinct (map fst (tp_possession_data e))"
  by (auto simp: possession_entry_of_def mark_players_distinct split: sum.splits)

lemma possession_frames_distinct:
  "\<forall>e\<in>set acc. distinct (map fst (tp_possession_data e)) \<Longrightarrow>
   \<forall>e\<in>set (fst (possession_frames i ps fns acc)). distinct (map fst (tp_possession_data e))"
proof (induction ps arbitrary: i acc)
  case Nil
  then show ?case by simp
next
  case (Cons p ps)
  show ?case
  proof (cases "possession_entry_of (frame_num_at fns i) p")
    case (Inl err)
    with Cons.prems show ?thesis by simp
  next
    case (Inr e)
    from Cons.prems possession_entry_of_distinct [OF Inr]
    have "\<forall>x\<in>set (acc @ [e]). distinct (map fst (tp_possession_data x))" by simp
    from Cons.IH [OF this] Inr show ?thesis by simp
  qed
qed

lemma reachable_possession_distinct:
  "reachable s \<Longrightarrow> \<forall>e\<in>set (team_possession_data s). distinct (map fst (tp_possession_data e))"
proof (induction rule: reachable.induct)
  case (reach_team s ba fns)
  from possession_frames_distinct [OF reach_team.IH] show ?case
    by (simp add: extract_team_possession_data_def case_prod_unfold)
qed (simp_all add: init_def extract_player_data_def extract_ball_data_def
  extract_pass_data_def extract_interception_data_def extract_speed_data_def)

lemma json_roundtrip_possession:
  assumes "distinct (map fst (tp_possession_data r))"
    and "\<forall>k\<in>set (map fst (tp_possession_data r)). \<exists>str. k = StrV str"
  shows "json_load (json_dump (possession_val r)) = possession_val r"
proof -
  let ?d = "map (\<lambda>(k, v). (k, int_val v)) (tp_possession_data r)"
  have mf: "map fst ?d = map fst (tp_possession_data r)"
    by (simp add: case_prod_unfold comp_def)
  have d: "distinct (map fst ?d)"
    using assms(1) by (simp only: mf)
  have k: "\<forall>(k, v)\<in>set ?d. (\<exists>str. k = StrV str) \<and> json_load (json_dump v) = v"
  proof (intro ballI, clarify)
    fix k v
    assume "(k, v) \<in> set ?d"
    then have "k \<in> set (map fst ?d)" by force
    then have "k \<in> set (map fst (tp_possession_data r))" by (simp only: mf)
    with assms(2) have "\<exists>str. k = StrV str" by blast
    moreover from \<open>(k, v) \<in> set ?d\<close> have "json_load (json_dump v) = v" by auto
    ultimately show "(\<exists>str. k = StrV str) \<and> json_load (json_dump v) = v" by simp
  qed
  from d k have "json_load (json_dump (PyDict ?d)) = PyDict ?d"
    by (rule json_roundtrip_dict)
  then show ?thesis
    unfolding possession_val_def by (intro json_roundtrip_dict) simp_all
qed

text \<open>
  Claim C7, as amended. Writing a reachable state with \<^verbatim>\<open>save_to_json\<close> and loading the
  file again gives back the six collections, record for record and field for field in
  the same order, provided that every key of every \<^verbatim>\<open>possession_data\<close> mapping is a
  string. Without the proviso the claim fails: JSON object keys are strings, so an
  integer player identifier used as a key of \<^verbatim>\<open>possession_data\<close> is read back as its
  decimal string, as the state after \<^verbatim>\<open>extract_team_possession_data([[7]], [0])\<close> shows
  further below.
\<close>

theorem json_round_trip:
  assumes "reachable s"
    and "\<forall>e\<in>set (team_possession_data s).
           \<forall>k\<in>set (map fst (tp_possession_data e)). \<exists>str. k = StrV str"
  shows "map (reload_collection (snd (save_to_json filename stamp iso_time s))) collection_names =
     map Some
       [PyList (map player_val (player_data s)),
        PyList (map ball_val (ball_data s)),
        PyList (map pass_val (pass_data s)),
        PyList (map interception_val (interception_data s)),
        PyList (map speed_val (speed_data s)),
        PyList (map possession_val (team_possession_data s))]"
proof -
  have tp: "\<forall>x\<in>set (map possession_val (team_possession_data s)).
      json_load (json_dump x) = x"
  proof
    fix x
    assume "x \<in> set (map possession_val (team_possession_data s))"
    then obtain e where e: "e \<in> set (team_possession_data s)" and x: "x = possession_val e"
      by auto
    from assms(2) e have "\<forall>k\<in>set (map fst (tp_possession_data e)). \<exists>str. k = StrV str"
      by blast
    moreover from reachable_possession_distinct [OF assms(1)] e
    have "distinct (map fst (tp_possession_data e))" by blast
    ultimately show "json_load (json_dump x) = x"
      unfolding x by (intro json_roundtrip_possession)
  qed
  have meta: "json_load (json_dump (PyDict
        [(StrV ''extraction_time'', PyStr iso_time),
         (StrV ''total_frames'', int_val a), (StrV ''total_players'', int_val b),
         (StrV ''total_passes'', int_val c), (StrV ''total_interceptions'', int_val d)])) =
      PyDict
        [(StrV ''extraction_time'', PyStr iso_time),
         (StrV ''total_frames'', int_val a), (StrV ''total_players'', int_val b),
         (StrV ''total_passes'', int_val c), (StrV ''total_interceptions'', int_val d)]"
    for a b c d
    by (rule json_roundtrip_dict) simp_all
  have "json_load (json_dump (json_data iso_time s)) = json_data iso_time s"
    unfolding json_data_def
    by (rule json_roundtrip_dict) (simp_all add: meta tp json_roundtrip_list)
  then show ?thesis
    by (simp add: save_to_json_def reload_collection_def collection_names_def Let_def
        json_data_def)
qed


theorem json_round_trip_witness:
  "reachable (fst (extract_team_possession_data [PossList [StrV ''p1'']] [0] (init ''out''))) \<and>
   map (reload_collection (snd (save_to_json None ''20250101_120000''
          ''2025-01-01T12:00:00'' (fst (extract_team_possession_data [PossList [StrV ''p1'']] [0] (init ''out''))))))
      collection_names =
     map Some
       [PyList (map player_val (player_data (fst (extract_team_possession_data [PossList [StrV ''p1'']] [0] (init ''out''))))),
        PyList (map ball_val (ball_data (fst (extract_team_possession_data [PossList [StrV ''p1'']] [0] (init ''out''))))),
        PyList (map pass_val (pass_data (fst (extract_team_possession_data [PossList [StrV ''p1'']] [0] (init ''out''))))),
        PyList (map interception_val (interception_data (fst (extract_team_possession_data [PossList [StrV ''p1'']] [0] (init ''out''))))),
        PyList (map speed_val (speed_data (fst (extract_team_possession_data [PossList [StrV ''p1'']] [0] (init ''out''))))),
        PyList (map possession_val (team_possession_data (fst (extract_team_possession_data [PossList [StrV ''p1'']] [0] (init ''out'')))))]"
proof -
  let ?s = "(fst (extract_team_possession_data [PossList [StrV ''p1'']] [0] (init ''out'')))"
  have r: "reachable ?s"
    by (intro reachable.intros)
  have t: "team_possession_data ?s =
      [\<lparr>tp_frame = 0, tp_possession_data = [(StrV ''p1'', 1)],
        tp_total_players_with_ball = 1, tp_timestamp = 0\<rparr>]"
    by (simp add: extract_team_possession_data_def possession_entry_of_def frame_num_at_def
        init_def)
  have k: "\<forall>e\<in>set (team_possession_data ?s).
      \<forall>k\<in>set (map fst (tp_possession_data e)). \<exists>str. k = StrV str"
    by (simp add: t)
  from json_round_trip [OF r k] r show ?thesis by simp
qed

theorem json_round_trip_counterexample:
  "reachable (fst (extract_team_possession_data [PossList [IntV 7]] [0] (init ''out''))) \<and>
   map (reload_collection (snd (save_to_json None ''20250101_120000''
          ''2025-01-01T12:00:00'' (fst (extract_team_possession_data [PossList [IntV 7]] [0] (init ''out''))))))
      collection_names \<noteq>
     map Some
       [PyList (map player_val (player_data (fst (extract_team_possession_data [PossList [IntV 7]] [0] (init ''out''))))),
        PyList (map ball_val (ball_data (fst (extract_team_possession_data [PossList [IntV 7]] [0] (init ''out''))))),
        PyList (map pass_val (pass_data (fst (extract_team_possession_data [PossList [IntV 7]] [0] (init ''out''))))),
        PyList (map interception_val (interception_data (fst (extract_team_possession_data [PossList [IntV 7]] [0] (init ''out''))))),
        PyList (map speed_val (speed_data (fst (extract_team_possession_data [PossList [IntV 7]] [0] (init ''out''))))),
        PyList (map possession_val (team_possession_data (fst (extract_team_possession_data [PossList [IntV 7]] [0] (init ''out'')))))]"
proof -
  let ?s = "(fst (extract_team_possession_data [PossList [IntV 7]] [0] (init ''out'')))"
  have r: "reachable ?s"
    by (intro reachable.intros)
  have s: "?s = \<lparr>output_dir = ''out'', player_data = [], ball_data = [], pass_data = [],
      interception_data = [], speed_data = [],
      team_possession_data =
        [\<lparr>tp_frame = 0, tp_possession_data = [(IntV 7, 1)],
          tp_total_players_with_ball = 1, tp_timestamp = 0\<rparr>]\<rparr>"
    by (simp add: extract_team_possession_data_def possession_entry_of_def frame_num_at_def
        init_def)
  have "reload_collection (snd (save_to_json None ''20250101_120000''
          ''2025-01-01T12:00:00'' ?s)) ''team_possession_data'' =
      Some (PyList [PyDict
        [(StrV ''frame'', PyNum 0),
         (StrV ''possession_data'', PyDict [(StrV (str_of_int 7), PyNum 1)]),
         (StrV ''total_players_with_ball'', PyNum 1),
         (StrV ''timestamp'', PyNum 0)]])"
    unfolding s
    by (simp add: save_to_json_def reload_collection_def json_data_def possession_val_def
        int_val_def Let_def)
  moreover have "PyList (map possession_val (team_possession_data ?s)) =
      PyList [PyDict
        [(StrV ''frame'', PyNum 0),
         (StrV ''possession_data'', PyDict [(IntV 7, PyNum 1)]),
         (StrV ''total_players_with_ball'', PyNum 1),
         (StrV ''timestamp'', PyNum 0)]]"
    unfolding s by (simp add: possession_val_def int_val_def)
  ultimately have "reload_collection (snd (save_to_json None ''20250101_120000''
          ''2025-01-01T12:00:00'' ?s)) ''team_possession_data'' \<noteq>
      Some (PyList (map possession_val (team_possession_data ?s)))"
    by simp
  then have "map (reload_collection (snd (save_to_json None ''20250101_120000''
          ''2025-01-01T12:00:00'' ?s)))
      collection_names \<noteq>
     map Some
       [PyList (map player_val (player_data ?s)),
        PyList (map ball_val (ball_data ?s)),
        PyList (map pass_val (pass_data ?s)),
        PyList (map interception_val (interception_data ?s)),
        PyList (map speed_val (speed_data ?s)),
        PyList (map possession_val (team_possession_data ?s))]"
    by (simp add: collection_names_def)
  with r show ?thesis by simp
qed

end
